theory Spec2Isabelle
  imports Main
begin

section \<open>Question records and spreadsheet rows\<close>

text \<open>
  A shallow embedding of the question-paper server (Part A / Part B variant).
  Strings are byte lists; the string helpers below treat ASCII only. A question of the
  bank is the object built by \<open>processExcelData\<close>; its JavaScript field \<open>id\<close> is
  called \<open>q_id\<close> here, since \<open>id\<close> is HOL's identity function.
\<close>

record bank_entry =
  q_id :: nat
  unit :: nat
  question :: string
  btLevel :: string
  subjectCode :: string
  subject :: string
  branch :: string
  regulation :: string
  year :: string
  semester :: string
  month :: string
  imageUrl :: string
  sno :: string

text \<open>
  A selected question is the spread \<open>{ ...q, label, part }\<close>: the question's fields
  plus a slot label and the part it belongs to.
\<close>

record selected = bank_entry +
  label :: string
  part :: string

definition withLabel :: "bank_entry \<Rightarrow> string \<Rightarrow> string \<Rightarrow> selected" where
  "withLabel q l p = bank_entry.extend q (selected.fields l p)"

text \<open>
  A spreadsheet row. Each column holds the string the code reads from the cell:
  \<open>String(cell || '')\<close> for the level and the pass-through columns, \<open>String(cell)\<close>
  for the unit. The clean-up of the question text, the formatting of the month and the
  rewriting of the image URL touch neither id, unit nor level; the row holds their
  results.
\<close>

record row =
  col_BT_Level :: string
  col_Unit :: string
  col_Question :: string
  col_Subject_Code :: string
  col_Subject :: string
  col_Branch :: string
  col_Regulation :: string
  col_Year :: string
  col_Sem :: string
  col_Month :: string
  col_Image_Url :: string
  col_SNO :: string

section \<open>String helpers\<close>

definition isWhite :: "char \<Rightarrow> bool" where
  "isWhite c = (c \<in> set [CHR 0x09, CHR 0x0A, CHR 0x0B, CHR 0x0C, CHR 0x0D, CHR '' ''])"

definition trim :: "string \<Rightarrow> string" where
  "trim s = rev (dropWhile isWhite (rev (dropWhile isWhite s)))"

text \<open>\<open>s.replace(/^L/i, '')\<close>: one leading L, of either case, is dropped.\<close>

fun stripL :: "string \<Rightarrow> string" where
  "stripL [] = []"
| "stripL (c # cs) = (if c = CHR ''L'' \<or> c = CHR ''l'' then cs else c # cs)"

text \<open>\<open>toUpperCase\<close> on ASCII: the letters a to z are mapped, every other byte is kept.\<close>

definition toUpperChar :: "char \<Rightarrow> char" where
  "toUpperChar c =
     (case map_of (zip ''abcdefghijklmnopqrstuvwxyz'' ''ABCDEFGHIJKLMNOPQRSTUVWXYZ'') c of
        Some u \<Rightarrow> u
      | None \<Rightarrow> c)"

definition toUpperCase :: "string \<Rightarrow> string" where
  "toUpperCase s = map toUpperChar s"

text \<open>\<open>romanMap[String(roman).toUpperCase()] || 0\<close>\<close>

definition romanToInt :: "string \<Rightarrow> nat" where
  "romanToInt roman =
     (case map_of [(''I'', 1), (''II'', 2), (''III'', 3), (''IV'', 4), (''V'', 5)]
             (toUpperCase roman) of
        Some n \<Rightarrow> n
      | None \<Rightarrow> 0)"

section \<open>Normalisation of the uploaded rows\<close>

definition toEntry :: "nat \<Rightarrow> row \<Rightarrow> bank_entry" where
  "toEntry index r =
     (let btLevelRaw = trim (col_BT_Level r);
          btLevel0 = stripL btLevelRaw
      in \<lparr> q_id = index + 1,
           unit = romanToInt (col_Unit r),
           question = col_Question r,
           btLevel = (if btLevel0 = [] then ''0'' else btLevel0),
           subjectCode = col_Subject_Code r,
           subject = col_Subject r,
           branch = col_Branch r,
           regulation = col_Regulation r,
           year = col_Year r,
           semester = col_Sem r,
           month = col_Month r,
           imageUrl = col_Image_Url r,
           sno = col_SNO r \<rparr>)"

definition keepEntry :: "bank_entry \<Rightarrow> bool" where
  "keepEntry q = (unit q \<ge> 1 \<and> unit q \<le> 5 \<and> btLevel q \<noteq> ''0'')"

definition processExcelData :: "row list \<Rightarrow> bank_entry list" where
  "processExcelData data =
     filter keepEntry (map (\<lambda>(index, r). toEntry index r) (enumerate 0 data))"

section \<open>The upload handler\<close>

text \<open>
  The module-level variable \<open>questionBank\<close> is the only state of the server:
  \<open>None\<close> is JavaScript's \<open>null\<close>.
\<close>

type_synonym bank = "bank_entry list option"

datatype upload_reply =
    UploadInsufficient nat
  | UploadMissingField string
  | UploadInvalid nat
  | UploadOk nat

fun uploadStatus :: "upload_reply \<Rightarrow> nat" where
  "uploadStatus (UploadOk n) = 200"
| "uploadStatus r = 400"

definition validBTLevels :: "string list" where
  "validBTLevels = [''1'', ''2'', ''3'', ''4'', ''5'', ''6'']"

definition validUnits :: "nat list" where
  "validUnits = [1, 2, 3, 4, 5]"

definition requiredFields :: "(string \<times> (bank_entry \<Rightarrow> string)) list" where
  "requiredFields =
     [(''subjectCode'', subjectCode), (''subject'', subject), (''branch'', branch),
      (''regulation'', regulation), (''year'', year), (''semester'', semester)]"

text \<open>The first required field that is empty in the sample question, if any.\<close>

fun missingField :: "(string \<times> ('a \<Rightarrow> string)) list \<Rightarrow> 'a \<Rightarrow> string option" where
  "missingField [] q = None"
| "missingField ((field, get) # fs) q = (if get q = [] then Some field else missingField fs q)"

text \<open>
  The handler of \<open>/api/upload\<close>, from the parsed rows on. The assignment to
  \<open>questionBank\<close> comes first, so the new state holds the processed rows whatever the
  reply is. With 17 questions or more, \<open>questionBank[0]\<close> exists.
\<close>

definition uploadHandler :: "bank \<Rightarrow> row list \<Rightarrow> upload_reply \<times> bank" where
  "uploadHandler old jsonData =
     (let questionBank = processExcelData jsonData
      in (if length questionBank < 17 then UploadInsufficient (length questionBank)
          else (case missingField requiredFields (hd questionBank) of
                  Some field \<Rightarrow> UploadMissingField field
                | None \<Rightarrow>
                    (let invalidQuestions =
                           filter (\<lambda>q. btLevel q \<notin> set validBTLevels \<or> unit q \<notin> set validUnits)
                             questionBank
                     in if length invalidQuestions > 0
                        then UploadInvalid (length invalidQuestions)
                        else UploadOk (length questionBank))),
          Some questionBank))"

section \<open>Errors, requirements and the random source\<close>

text \<open>
  One constructor for each \<open>throw\<close> of \<open>generateQuestions\<close>, carrying the values its
  message interpolates, and \<open>TypeError\<close> for the run-time error of reading a property
  of \<open>null\<close> or \<open>undefined\<close> or calling a non-function. \<open>FewerThanSix\<close> is the size
  gate of the six-question variant.
\<close>

datatype error =
    TypeError
  | InsufficientQuestionBank nat
  | InvalidPaperType
  | InsufficientL1 nat nat nat
  | InsufficientL2toL6 nat nat nat
  | NoValidBTLevels
  | UnsupportedCase int "string list"
  | NoL1Available nat
  | UnitCountNotExact nat nat nat
  | NoQuestionsAvailable nat
  | UnitBelowMinimum nat nat nat
  | PartANotFive
  | PartBNotTwelve
  | FewerThanSix

record unit_count =
  uc_unit :: nat
  uc_count :: nat

record unit_req =
  u_unit :: nat
  minCount :: nat
  maxCount :: nat

text \<open>
  A difficulty requirement \<open>{ level, count }\<close> or \<open>{ level: 'random', options, count }\<close>;
  \<open>options = []\<close> stands for an object without the \<open>options\<close> property.
\<close>

record btl_req =
  level :: string
  options :: "string list"
  count :: nat

record slot =
  slot_label :: string
  slot_unit :: nat

text \<open>
  \<open>Math.random()\<close> is a sequence of draws: \<open>rnd k\<close> decides the \<open>k\<close>-th call, and
  \<open>Math.floor(Math.random() * n)\<close> is any index below \<open>n\<close> (0 when \<open>n\<close> is 0).
  The functions below thread the number of calls made so far.
\<close>

type_synonym rng = "nat \<Rightarrow> nat"

definition randomIndex :: "rng \<Rightarrow> nat \<Rightarrow> nat \<Rightarrow> nat" where
  "randomIndex rnd k n = (if n = 0 then 0 else rnd k mod n)"

text \<open>Array indexing: \<open>undefined\<close> out of range.\<close>

definition at :: "'a list \<Rightarrow> nat \<Rightarrow> 'a option" where
  "at xs i = (if i < length xs then Some (xs ! i) else None)"

section \<open>parseInt\<close>

definition digitOf :: "char \<Rightarrow> nat option" where
  "digitOf c = map_of (zip ''0123456789'' [0, 1, 2, 3, 4, 5, 6, 7, 8, 9]) c"

definition hexDigitOf :: "char \<Rightarrow> nat option" where
  "hexDigitOf c =
     map_of (zip ''0123456789abcdefABCDEF''
               [0, 1, 2, 3, 4, 5, 6, 7, 8, 9, 10, 11, 12, 13, 14, 15, 10, 11, 12, 13, 14, 15]) c"

fun leadingDigits :: "(char \<Rightarrow> nat option) \<Rightarrow> string \<Rightarrow> nat list" where
  "leadingDigits dig [] = []"
| "leadingDigits dig (c # cs) =
     (case dig c of None \<Rightarrow> [] | Some d \<Rightarrow> d # leadingDigits dig cs)"

text \<open>
  \<open>parseInt(s)\<close> without a radix: leading white space, an optional sign, an optional
  \<open>0x\<close> prefix, then the longest run of digits; \<open>None\<close> is \<open>NaN\<close>.
\<close>

definition parseInt :: "string \<Rightarrow> int option" where
  "parseInt s =
     (let s1 = dropWhile isWhite s;
          signed = (s1 \<noteq> [] \<and> (hd s1 = CHR ''-'' \<or> hd s1 = CHR ''+''));
          neg = (s1 \<noteq> [] \<and> hd s1 = CHR ''-'');
          s2 = (if signed then tl s1 else s1);
          hex = (take 2 s2 = ''0x'' \<or> take 2 s2 = ''0X'');
          ds = (if hex then leadingDigits hexDigitOf (drop 2 s2) else leadingDigits digitOf s2);
          radix = (if hex then 16 else 10)
      in if ds = [] then None
         else Some ((if neg then - 1 else 1) * int (foldl (\<lambda>a d. a * radix + d) 0 ds)))"

text \<open>\<open>parseInt(q.btLevel) || 0\<close>\<close>

definition parsedLevel :: "bank_entry \<Rightarrow> int" where
  "parsedLevel q = (case parseInt (btLevel q) of None \<Rightarrow> 0 | Some n \<Rightarrow> n)"

section \<open>The requirement catalogue\<close>

text \<open>Step 2 of \<open>generateQuestions\<close>: \<open>None\<close> is the branch that throws.\<close>

definition requirementsFor :: "string \<Rightarrow> (unit_count list \<times> unit_req list) option" where
  "requirementsFor paperType =
     (if paperType = ''mid1'' then
        Some ([\<lparr>uc_unit = 1, uc_count = 2\<rparr>,
               \<lparr>uc_unit = 2, uc_count = 2\<rparr>,
               \<lparr>uc_unit = 3, uc_count = 1\<rparr>],
              [\<lparr>u_unit = 1, minCount = 5, maxCount = 5\<rparr>,
               \<lparr>u_unit = 2, minCount = 5, maxCount = 5\<rparr>,
               \<lparr>u_unit = 3, minCount = 2, maxCount = 2\<rparr>])
      else if paperType = ''mid2'' then
        Some ([\<lparr>uc_unit = 3, uc_count = 1\<rparr>,
               \<lparr>uc_unit = 4, uc_count = 2\<rparr>,
               \<lparr>uc_unit = 5, uc_count = 2\<rparr>],
              [\<lparr>u_unit = 3, minCount = 2, maxCount = 2\<rparr>,
               \<lparr>u_unit = 4, minCount = 5, maxCount = 5\<rparr>,
               \<lparr>u_unit = 5, minCount = 5, maxCount = 5\<rparr>])
      else None)"

text \<open>Step 6: the Part B labels and the Part A labels.\<close>

definition labelsFor :: "string \<Rightarrow> (slot list \<times> slot list) option" where
  "labelsFor paperType =
     (if paperType = ''mid1'' then
        Some ([\<lparr>slot_label = ''2a'', slot_unit = 1\<rparr>,
               \<lparr>slot_label = ''2b'', slot_unit = 1\<rparr>,
               \<lparr>slot_label = ''3a'', slot_unit = 1\<rparr>,
               \<lparr>slot_label = ''3b'', slot_unit = 1\<rparr>,
               \<lparr>slot_label = ''6b'', slot_unit = 1\<rparr>,
               \<lparr>slot_label = ''4a'', slot_unit = 2\<rparr>,
               \<lparr>slot_label = ''4b'', slot_unit = 2\<rparr>,
               \<lparr>slot_label = ''5a'', slot_unit = 2\<rparr>,
               \<lparr>slot_label = ''5b'', slot_unit = 2\<rparr>,
               \<lparr>slot_label = ''7b'', slot_unit = 2\<rparr>,
               \<lparr>slot_label = ''6a'', slot_unit = 3\<rparr>,
               \<lparr>slot_label = ''7a'', slot_unit = 3\<rparr>],
              [\<lparr>slot_label = ''1'', slot_unit = 1\<rparr>,
               \<lparr>slot_label = ''2'', slot_unit = 1\<rparr>,
               \<lparr>slot_label = ''3'', slot_unit = 2\<rparr>,
               \<lparr>slot_label = ''4'', slot_unit = 2\<rparr>,
               \<lparr>slot_label = ''5'', slot_unit = 3\<rparr>])
      else if paperType = ''mid2'' then
        Some ([\<lparr>slot_label = ''2a'', slot_unit = 3\<rparr>,
               \<lparr>slot_label = ''2b'', slot_unit = 3\<rparr>,
               \<lparr>slot_label = ''3a'', slot_unit = 4\<rparr>,
               \<lparr>slot_label = ''3b'', slot_unit = 4\<rparr>,
               \<lparr>slot_label = ''4a'', slot_unit = 4\<rparr>,
               \<lparr>slot_label = ''4b'', slot_unit = 4\<rparr>,
               \<lparr>slot_label = ''5a'', slot_unit = 4\<rparr>,
               \<lparr>slot_label = ''5b'', slot_unit = 5\<rparr>,
               \<lparr>slot_label = ''6a'', slot_unit = 5\<rparr>,
               \<lparr>slot_label = ''6b'', slot_unit = 5\<rparr>,
               \<lparr>slot_label = ''7a'', slot_unit = 5\<rparr>,
               \<lparr>slot_label = ''7b'', slot_unit = 5\<rparr>],
              [\<lparr>slot_label = ''1'', slot_unit = 3\<rparr>,
               \<lparr>slot_label = ''2'', slot_unit = 4\<rparr>,
               \<lparr>slot_label = ''3'', slot_unit = 4\<rparr>,
               \<lparr>slot_label = ''4'', slot_unit = 5\<rparr>,
               \<lparr>slot_label = ''5'', slot_unit = 5\<rparr>])
      else None)"

section \<open>The feasibility checks\<close>

fun checkPartA :: "bank_entry list \<Rightarrow> unit_count list \<Rightarrow> error option" where
  "checkPartA partAQuestions [] = None"
| "checkPartA partAQuestions (req # reqs) =
     (let n = length (filter (\<lambda>q. unit q = uc_unit req) partAQuestions)
      in if n < uc_count req then Some (InsufficientL1 (uc_unit req) n (uc_count req))
         else checkPartA partAQuestions reqs)"

fun checkPartB :: "bank_entry list \<Rightarrow> unit_req list \<Rightarrow> error option" where
  "checkPartB partBQuestions [] = None"
| "checkPartB partBQuestions (req # reqs) =
     (let n = length (filter (\<lambda>q. unit q = u_unit req) partBQuestions)
      in if n < minCount req then Some (InsufficientL2toL6 (u_unit req) n (minCount req))
         else checkPartB partBQuestions reqs)"

text \<open>
  Step 3 groups the Part B questions in a plain object keyed by level and collects the
  levels in a \<open>Set\<close>, unit by unit. A level that names a property every object inherits
  is found "already there", and the \<open>push\<close> on it throws. The set is kept as the list of
  its elements in insertion order.
\<close>

definition objectPrototypeKeys :: "string list" where
  "objectPrototypeKeys =
     [''constructor'', ''hasOwnProperty'', ''isPrototypeOf'', ''propertyIsEnumerable'',
      ''toLocaleString'', ''toString'', ''valueOf'', ''__proto__'', ''__defineGetter__'',
      ''__defineSetter__'', ''__lookupGetter__'', ''__lookupSetter__'']"

fun collectBTLs :: "bank_entry list \<Rightarrow> string list \<Rightarrow> error + string list" where
  "collectBTLs [] availableBTLs = Inr availableBTLs"
| "collectBTLs (q # qs) availableBTLs =
     (if btLevel q \<in> set objectPrototypeKeys then Inl TypeError
      else collectBTLs qs
             (if btLevel q \<in> set availableBTLs then availableBTLs
              else availableBTLs @ [btLevel q]))"

definition assessAvailable :: "bank_entry list \<Rightarrow> error + string list" where
  "assessAvailable partBQuestions =
     collectBTLs
       (concat (map (\<lambda>u. filter (\<lambda>q. unit q = u) partBQuestions) [1, 2, 3, 4, 5])) []"

text \<open>Step 5: the difficulty requirements of Part B, from the highest level present.\<close>

definition defineBtlRequirements :: "int \<Rightarrow> string list \<Rightarrow> error + btl_req list" where
  "defineBtlRequirements maxBTL availableBTLs =
     (if maxBTL = 6 then
        Inr [\<lparr>level = ''2'', options = [], count = 4\<rparr>,
             \<lparr>level = ''3'', options = [], count = 4\<rparr>,
             \<lparr>level = ''4'', options = [], count = 2\<rparr>,
             \<lparr>level = ''random'', options = [''5'', ''6''], count = 2\<rparr>]
      else if maxBTL = 5 then
        Inr [\<lparr>level = ''2'', options = [], count = 4\<rparr>,
             \<lparr>level = ''3'', options = [], count = 4\<rparr>,
             \<lparr>level = ''4'', options = [], count = 2\<rparr>,
             \<lparr>level = ''random'', options = [''5'', ''3''], count = 2\<rparr>]
      else if maxBTL = 4 then
        Inr [\<lparr>level = ''2'', options = [], count = 4\<rparr>,
             \<lparr>level = ''3'', options = [], count = 4\<rparr>,
             \<lparr>level = ''4'', options = [], count = 2\<rparr>,
             \<lparr>level = ''random'', options = [''3'', ''4''], count = 2\<rparr>]
      else if maxBTL = 3 then
        Inr [\<lparr>level = ''2'', options = [], count = 5\<rparr>,
             \<lparr>level = ''3'', options = [], count = 5\<rparr>,
             \<lparr>level = ''random'', options = [''2'', ''3''], count = 2\<rparr>]
      else if maxBTL = 2 \<and> ''2'' \<in> set availableBTLs then
        Inr [\<lparr>level = ''2'', options = [], count = 12\<rparr>]
      else if length availableBTLs = 1 then
        Inr [\<lparr>level = hd availableBTLs, options = [], count = 12\<rparr>]
      else Inl (UnsupportedCase maxBTL availableBTLs))"

section \<open>Selecting Part A\<close>

text \<open>The local variables of \<open>selectPartAQuestions\<close>.\<close>

record stateA =
  selectedQuestions :: "selected list"
  unitCount :: "nat \<Rightarrow> nat"
  remainingQuestions :: "bank_entry list"

text \<open>
  The closure \<open>pickQuestionFromUnit\<close> of Part A; \<open>k\<close> is the number of random draws
  made before the call, and the pick makes one. \<open>unitCount\<close> has the keys 1 to 5, the
  only units a slot names.
\<close>

definition pickQuestionFromUnitA ::
  "rng \<Rightarrow> nat \<Rightarrow> stateA \<Rightarrow> nat \<Rightarrow> error + (bank_entry \<times> stateA)" where
  "pickQuestionFromUnitA rnd k st u =
     (let unitQuestions =
            filter (\<lambda>q. unit q = u \<and> btLevel q = ''1'') (remainingQuestions st)
      in if length unitQuestions = 0 then Inl (NoL1Available u)
         else
           (let idx = randomIndex rnd k (length unitQuestions);
                q = unitQuestions ! idx
            in Inr (q, st\<lparr> remainingQuestions :=
                              filter (\<lambda>r. q_id r \<noteq> q_id q) (remainingQuestions st),
                            unitCount := (unitCount st)(unit q := unitCount st (unit q) + 1) \<rparr>)))"

fun fillPartA :: "rng \<Rightarrow> nat \<Rightarrow> slot list \<Rightarrow> stateA \<Rightarrow> error + (stateA \<times> nat)" where
  "fillPartA rnd k [] st = Inr (st, k)"
| "fillPartA rnd k (l # ls) st =
     (case pickQuestionFromUnitA rnd k st (slot_unit l) of
        Inl e \<Rightarrow> Inl e
      | Inr (q, st') \<Rightarrow>
          fillPartA rnd (k + 1) ls
            (st'\<lparr> selectedQuestions :=
                    selectedQuestions st' @ [withLabel q (slot_label l) ''A''] \<rparr>))"

fun validatePartA :: "(nat \<Rightarrow> nat) \<Rightarrow> unit_count list \<Rightarrow> error option" where
  "validatePartA uc [] = None"
| "validatePartA uc (req # reqs) =
     (if uc (uc_unit req) \<noteq> uc_count req
      then Some (UnitCountNotExact (uc_unit req) (uc (uc_unit req)) (uc_count req))
      else validatePartA uc reqs)"

definition selectPartAQuestions ::
  "rng \<Rightarrow> nat \<Rightarrow> bank_entry list \<Rightarrow> unit_count list \<Rightarrow> slot list
     \<Rightarrow> error + (selected list \<times> nat)" where
  "selectPartAQuestions rnd k partAQuestions unitReqs labels =
     (case fillPartA rnd k labels
             \<lparr> selectedQuestions = [], unitCount = (\<lambda>u. 0),
               remainingQuestions = partAQuestions \<rparr> of
        Inl e \<Rightarrow> Inl e
      | Inr (st, k') \<Rightarrow>
          (case validatePartA (unitCount st) unitReqs of
             Some e \<Rightarrow> Inl e
           | None \<Rightarrow> Inr (selectedQuestions st, k')))"

section \<open>Selecting Part B\<close>

text \<open>
  The local variables of \<open>selectPartBQuestions\<close>, and the requirement objects whose
  \<open>count\<close> the slot loop decrements.
\<close>

record stateB = stateA +
  btlCount :: "string \<Rightarrow> nat"
  btlReqs :: "btl_req list"

text \<open>
  The inner loop of the slot loop: the first requirement with a positive count gives
  the level (one of its options, drawn at random, for a \<open>random\<close> requirement) and is
  decremented. \<open>None\<close> is a level left \<open>null\<close> or \<open>undefined\<close>.
\<close>

fun nextBtl ::
  "rng \<Rightarrow> nat \<Rightarrow> btl_req list \<Rightarrow> error + (string option \<times> btl_req list \<times> nat)" where
  "nextBtl rnd k [] = Inr (None, [], k)"
| "nextBtl rnd k (req # reqs) =
     (if count req > 0 then
        (if level req = ''random'' then
           (if options req = [] then Inl TypeError
            else Inr (at (options req) (randomIndex rnd k (length (options req))),
                      req\<lparr>count := count req - 1\<rparr> # reqs, k + 1))
         else Inr (Some (level req), req\<lparr>count := count req - 1\<rparr> # reqs, k))
      else
        (case nextBtl rnd k reqs of
           Inl e \<Rightarrow> Inl e
         | Inr (b, reqs', k') \<Rightarrow> Inr (b, req # reqs', k')))"

text \<open>\<open>!btl\<close>\<close>

definition falsy :: "string option \<Rightarrow> bool" where
  "falsy b = (b = None \<or> b = Some [])"

text \<open>The closure \<open>pickQuestionFromUnit\<close> of Part B.\<close>

definition pickQuestionFromUnitB ::
  "rng \<Rightarrow> nat \<Rightarrow> unit_req list \<Rightarrow> stateB \<Rightarrow> string option \<Rightarrow> nat
     \<Rightarrow> error + (bank_entry \<times> stateB)" where
  "pickQuestionFromUnitB rnd k unitReqs st btl u =
     (let unitQuestions = filter (\<lambda>q. unit q = u) (remainingQuestions st);
          btlMatches0 = filter (\<lambda>q. Some (btLevel q) = btl) unitQuestions
      in (case (if length btlMatches0 = 0 then Inr True
                else (case find (\<lambda>r. u_unit r = u) unitReqs of
                        None \<Rightarrow> Inl TypeError
                      | Some r \<Rightarrow> Inr (unitCount st u \<ge> maxCount r))) of
            Inl e \<Rightarrow> Inl e
          | Inr relax \<Rightarrow>
              (let btlMatches = (if relax then unitQuestions else btlMatches0)
               in if length btlMatches = 0 then Inl (NoQuestionsAvailable u)
                  else
                    (let idx = randomIndex rnd k (length btlMatches);
                         q = btlMatches ! idx
                     in Inr (q, st\<lparr> remainingQuestions :=
                                       filter (\<lambda>r. q_id r \<noteq> q_id q) (remainingQuestions st),
                                     unitCount :=
                                       (unitCount st)(unit q := unitCount st (unit q) + 1),
                                     btlCount :=
                                       (btlCount st)(btLevel q := btlCount st (btLevel q) + 1)
                                   \<rparr>)))))"

fun fillPartB ::
  "rng \<Rightarrow> nat \<Rightarrow> string list \<Rightarrow> unit_req list \<Rightarrow> slot list \<Rightarrow> stateB
     \<Rightarrow> error + (stateB \<times> nat)" where
  "fillPartB rnd k availableBTLs unitReqs [] st = Inr (st, k)"
| "fillPartB rnd k availableBTLs unitReqs (l # ls) st =
     (case nextBtl rnd k (btlReqs st) of
        Inl e \<Rightarrow> Inl e
      | Inr (b, reqs', k1) \<Rightarrow>
          (let btl = (if falsy b
                      then at availableBTLs (randomIndex rnd k1 (length availableBTLs))
                      else b);
               k2 = (if falsy b then k1 + 1 else k1)
           in (case pickQuestionFromUnitB rnd k2 unitReqs (st\<lparr>btlReqs := reqs'\<rparr>) btl
                      (slot_unit l) of
                 Inl e \<Rightarrow> Inl e
               | Inr (q, st') \<Rightarrow>
                   fillPartB rnd (k2 + 1) availableBTLs unitReqs ls
                     (st'\<lparr> selectedQuestions :=
                             selectedQuestions st' @ [withLabel q (slot_label l) ''B''] \<rparr>))))"

fun validatePartB :: "(nat \<Rightarrow> nat) \<Rightarrow> unit_req list \<Rightarrow> error option" where
  "validatePartB uc [] = None"
| "validatePartB uc (req # reqs) =
     (if uc (u_unit req) < minCount req
      then Some (UnitBelowMinimum (u_unit req) (uc (u_unit req)) (minCount req))
      else validatePartB uc reqs)"

text \<open>The comparator of the final sort, and the stable sort it is given to.\<close>

definition labelOrder :: "string list" where
  "labelOrder =
     [''2a'', ''2b'', ''3a'', ''3b'', ''4a'', ''4b'', ''5a'', ''5b'', ''6a'', ''6b'', ''7a'', ''7b'']"

fun indexOf :: "'a list \<Rightarrow> 'a \<Rightarrow> int" where
  "indexOf [] x = - 1"
| "indexOf (y # ys) x =
     (if y = x then 0 else (let i = indexOf ys x in if i < 0 then - 1 else i + 1))"

definition compareB :: "selected \<Rightarrow> selected \<Rightarrow> int" where
  "compareB a b =
     (if unit a \<noteq> unit b then int (unit a) - int (unit b)
      else indexOf labelOrder (label a) - indexOf labelOrder (label b))"

fun insertSorted :: "('a \<Rightarrow> 'a \<Rightarrow> int) \<Rightarrow> 'a \<Rightarrow> 'a list \<Rightarrow> 'a list" where
  "insertSorted cmp x [] = [x]"
| "insertSorted cmp x (y # ys) =
     (if cmp x y \<le> 0 then x # y # ys else y # insertSorted cmp x ys)"

definition sortBy :: "('a \<Rightarrow> 'a \<Rightarrow> int) \<Rightarrow> 'a list \<Rightarrow> 'a list" where
  "sortBy cmp xs = foldr (insertSorted cmp) xs []"

definition selectPartBQuestions ::
  "rng \<Rightarrow> nat \<Rightarrow> bank_entry list \<Rightarrow> string list \<Rightarrow> btl_req list \<Rightarrow> unit_req list
     \<Rightarrow> slot list \<Rightarrow> error + (selected list \<times> nat)" where
  "selectPartBQuestions rnd k partBQuestions availableBTLs btlRequirements unitReqs labels =
     (case fillPartB rnd k availableBTLs unitReqs labels
             \<lparr> selectedQuestions = [], unitCount = (\<lambda>u. 0),
               remainingQuestions = partBQuestions,
               btlCount = (\<lambda>b. 0), btlReqs = btlRequirements \<rparr> of
        Inl e \<Rightarrow> Inl e
      | Inr (st, k') \<Rightarrow>
          (case validatePartB (unitCount st) unitReqs of
             Some e \<Rightarrow> Inl e
           | None \<Rightarrow> Inr (sortBy compareB (selectedQuestions st), k')))"

section \<open>generateQuestions\<close>

definition isPartA :: "bank_entry \<Rightarrow> bool" where
  "isPartA q = (btLevel q = ''1'' \<and> unit q \<ge> 1 \<and> unit q \<le> 5)"

definition isPartB :: "bank_entry \<Rightarrow> bool" where
  "isPartB q = (btLevel q \<noteq> ''1'' \<and> unit q \<ge> 1 \<and> unit q \<le> 5)"

text \<open>
  The steps before any random draw: the size gate, the split of the bank, the catalogue
  lookup, the two feasibility loops and the difficulty requirements. With \<open>questionBank\<close>
  null, building the message of the first \<open>throw\<close> reads \<open>questionBank.length\<close> and
  throws a \<open>TypeError\<close> instead.
\<close>

record plan =
  partAQuestions :: "bank_entry list"
  partBQuestions :: "bank_entry list"
  partAUnitRequirements :: "unit_count list"
  unitRequirements :: "unit_req list"
  availableBTLs :: "string list"
  btlRequirements :: "btl_req list"
  questionLabels :: "slot list"
  partALabels :: "slot list"

definition prepare :: "bank \<Rightarrow> string \<Rightarrow> error + plan" where
  "prepare questionBank paperType =
     (case questionBank of
        None \<Rightarrow> Inl TypeError
      | Some qb \<Rightarrow>
     if length qb < 17 then Inl (InsufficientQuestionBank (length qb)) else
     (let pa = filter isPartA qb; pb = filter isPartB qb
      in (case requirementsFor paperType of
            None \<Rightarrow> Inl InvalidPaperType
          | Some (aReqs, uReqs) \<Rightarrow>
      (case checkPartA pa aReqs of
         Some e \<Rightarrow> Inl e
       | None \<Rightarrow>
      (case checkPartB pb uReqs of
         Some e \<Rightarrow> Inl e
       | None \<Rightarrow>
      (case assessAvailable pb of
         Inl e \<Rightarrow> Inl e
       | Inr avail \<Rightarrow>
      (let btLevels = filter (\<lambda>btl. btl > 0) (map parsedLevel pb)
       in if length btLevels = 0 then Inl NoValidBTLevels else
      (case defineBtlRequirements (Max (set btLevels)) avail of
         Inl e \<Rightarrow> Inl e
       | Inr bReqs \<Rightarrow>
      (case labelsFor paperType of
         None \<Rightarrow> Inl InvalidPaperType
       | Some (qLabels, aLabels) \<Rightarrow>
           Inr \<lparr> partAQuestions = pa, partBQuestions = pb,
                 partAUnitRequirements = aReqs, unitRequirements = uReqs,
                 availableBTLs = avail, btlRequirements = bReqs,
                 questionLabels = qLabels, partALabels = aLabels \<rparr>)))))))))"

definition generateQuestions ::
  "rng \<Rightarrow> bank \<Rightarrow> string \<Rightarrow> error + (selected list \<times> selected list)" where
  "generateQuestions rnd questionBank paperType =
     (case prepare questionBank paperType of
        Inl e \<Rightarrow> Inl e
      | Inr p \<Rightarrow>
     (case selectPartAQuestions rnd 0 (partAQuestions p) (partAUnitRequirements p)
             (partALabels p) of
        Inl e \<Rightarrow> Inl e
      | Inr (partASelected, k) \<Rightarrow>
     (case selectPartBQuestions rnd k (partBQuestions p) (availableBTLs p)
             (btlRequirements p) (unitRequirements p) (questionLabels p) of
        Inl e \<Rightarrow> Inl e
      | Inr (partBSelected, k') \<Rightarrow>
          if length partASelected \<noteq> 5 then Inl PartANotFive
          else if length partBSelected \<noteq> 12 then Inl PartBNotTwelve
          else Inr (partASelected, partBSelected))))"

section \<open>The generate handler\<close>

record paper_question =
  pq_question :: string
  pq_imageUrl :: string
  pq_btLevel :: string
  pq_unit :: nat
  pq_label :: string

record paper_details =
  d_subjectCode :: string
  d_subject :: string
  d_branch :: string
  d_regulation :: string
  d_year :: string
  d_semester :: string
  d_month :: string

datatype generate_reply =
    NoQuestionsUploaded
  | InvalidPaperTypeRequest
  | GenerateFailed error
  | MissingDetail string
  | Paper "paper_question list" "paper_question list" paper_details

fun generateStatus :: "generate_reply \<Rightarrow> nat" where
  "generateStatus (Paper a b d) = 200"
| "generateStatus (GenerateFailed e) = 500"
| "generateStatus r = 400"

text \<open>\<open>partA[0]?.f || partB[0]?.f || ''\<close>\<close>

definition detail :: "(selected \<Rightarrow> string) \<Rightarrow> selected list \<Rightarrow> selected list \<Rightarrow> string" where
  "detail f partA partB =
     (let a = (case partA of [] \<Rightarrow> [] | s # ss \<Rightarrow> f s)
      in if a \<noteq> [] then a else (case partB of [] \<Rightarrow> [] | s # ss \<Rightarrow> f s))"

definition requiredDetails :: "(string \<times> (paper_details \<Rightarrow> string)) list" where
  "requiredDetails =
     [(''subjectCode'', d_subjectCode), (''subject'', d_subject), (''branch'', d_branch),
      (''regulation'', d_regulation), (''year'', d_year), (''semester'', d_semester)]"

definition toPaperQuestion :: "selected \<Rightarrow> paper_question" where
  "toPaperQuestion q =
     \<lparr> pq_question = question q, pq_imageUrl = imageUrl q, pq_btLevel = btLevel q,
       pq_unit = unit q, pq_label = label q \<rparr>"

text \<open>
  The handler of \<open>/api/generate\<close>: the reply and the value of \<open>questionBank\<close> after the
  request. Nothing on this path assigns \<open>questionBank\<close>, and the selection works on
  arrays of its own (\<open>filter\<close> and the spread build new ones).
\<close>

definition generateHandler :: "rng \<Rightarrow> bank \<Rightarrow> string \<Rightarrow> generate_reply \<times> bank" where
  "generateHandler rnd questionBank paperType =
     ((if questionBank = None then NoQuestionsUploaded
       else if paperType \<notin> set [''mid1'', ''mid2''] then InvalidPaperTypeRequest
       else
         (case generateQuestions rnd questionBank paperType of
            Inl e \<Rightarrow> GenerateFailed e
          | Inr (partA, partB) \<Rightarrow>
              (let paperDetails =
                     \<lparr> d_subjectCode = detail subjectCode partA partB,
                       d_subject = detail subject partA partB,
                       d_branch = detail branch partA partB,
                       d_regulation = detail regulation partA partB,
                       d_year = detail year partA partB,
                       d_semester = detail semester partA partB,
                       d_month = detail month partA partB \<rparr>
               in (case missingField requiredDetails paperDetails of
                     Some field \<Rightarrow> MissingDetail field
                   | None \<Rightarrow>
                       Paper (map toPaperQuestion partA) (map toPaperQuestion partB)
                         paperDetails)))),
      questionBank)"

text \<open>One request to the server, and the state it leaves.\<close>

datatype request = Upload "row list" | Generate string

datatype reply = Uploaded upload_reply | Generated generate_reply

fun replyStatus :: "reply \<Rightarrow> nat" where
  "replyStatus (Uploaded r) = uploadStatus r"
| "replyStatus (Generated r) = generateStatus r"

fun serve :: "rng \<Rightarrow> bank \<Rightarrow> request \<Rightarrow> reply \<times> bank" where
  "serve rnd questionBank (Upload jsonData) =
     (let (r, qb) = uploadHandler questionBank jsonData in (Uploaded r, qb))"
| "serve rnd questionBank (Generate paperType) =
     (let (r, qb) = generateHandler rnd questionBank paperType in (Generated r, qb))"

section \<open>The six-question variant\<close>

text \<open>
  The second source file is the same server for a paper of six questions. Its
  \<open>processExcelData\<close> reads the unit with \<open>parseInt(row.Unit) || 0\<close> and has no \<open>sno\<close>;
  a negative unit is kept as 0 here, which the filter rejects just the same. Of its
  \<open>generateQuestions\<close> the steps before the selection are modelled: the size gate, the
  levels present, the difficulty requirements and the unit requirements of the paper
  type.
\<close>

definition toEntry_v1 :: "nat \<Rightarrow> row \<Rightarrow> bank_entry" where
  "toEntry_v1 index r =
     (let btLevelRaw = trim (col_BT_Level r);
          btLevel0 = stripL btLevelRaw
      in \<lparr> q_id = index + 1,
           unit = (case parseInt (col_Unit r) of None \<Rightarrow> 0 | Some n \<Rightarrow> nat n),
           question = col_Question r,
           btLevel = (if btLevel0 = [] then ''0'' else btLevel0),
           subjectCode = col_Subject_Code r,
           subject = col_Subject r,
           branch = col_Branch r,
           regulation = col_Regulation r,
           year = col_Year r,
           semester = col_Sem r,
           month = col_Month r,
           imageUrl = col_Image_Url r,
           sno = [] \<rparr>)"

definition processExcelData_v1 :: "row list \<Rightarrow> bank_entry list" where
  "processExcelData_v1 data =
     filter keepEntry (map (\<lambda>(index, r). toEntry_v1 index r) (enumerate 0 data))"

definition defineBtlRequirements_v1 :: "int \<Rightarrow> string list \<Rightarrow> error + btl_req list" where
  "defineBtlRequirements_v1 maxBTL avail =
     (if maxBTL = 6 then
        Inr [\<lparr>level = ''1'', options = [], count = 1\<rparr>,
             \<lparr>level = ''2'', options = [], count = 2\<rparr>,
             \<lparr>level = ''3'', options = [], count = 1\<rparr>,
             \<lparr>level = ''4'', options = [], count = 1\<rparr>,
             \<lparr>level = ''random'', options = [''5'', ''6''], count = 1\<rparr>]
      else if maxBTL = 5 then
        Inr [\<lparr>level = ''1'', options = [], count = 1\<rparr>,
             \<lparr>level = ''2'', options = [], count = 2\<rparr>,
             \<lparr>level = ''3'', options = [], count = 1\<rparr>,
             \<lparr>level = ''4'', options = [], count = 1\<rparr>,
             \<lparr>level = ''random'', options = [''5'', ''3''], count = 1\<rparr>]
      else if maxBTL = 4 then
        Inr [\<lparr>level = ''1'', options = [], count = 1\<rparr>,
             \<lparr>level = ''2'', options = [], count = 2\<rparr>,
             \<lparr>level = ''3'', options = [], count = 1\<rparr>,
             \<lparr>level = ''4'', options = [], count = 1\<rparr>,
             \<lparr>level = ''random'', options = [''3'', ''4''], count = 1\<rparr>]
      else if maxBTL = 3 then
        Inr [\<lparr>level = ''1'', options = [], count = 1\<rparr>,
             \<lparr>level = ''2'', options = [], count = 2\<rparr>,
             \<lparr>level = ''3'', options = [], count = 2\<rparr>,
             \<lparr>level = ''random'', options = [''2'', ''3''], count = 1\<rparr>]
      else if maxBTL = 2 \<and> ''2'' \<in> set avail \<and> ''1'' \<in> set avail then
        Inr [\<lparr>level = ''1'', options = [], count = 1\<rparr>,
             \<lparr>level = ''2'', options = [], count = 5\<rparr>]
      else if length avail = 1 then
        Inr [\<lparr>level = hd avail, options = [], count = 6\<rparr>]
      else Inl (UnsupportedCase maxBTL avail))"

definition unitRequirements_v1 :: "string \<Rightarrow> unit_req list option" where
  "unitRequirements_v1 paperType =
     (if paperType = ''mid1'' then
        Some [\<lparr>u_unit = 1, minCount = 2, maxCount = 3\<rparr>,
              \<lparr>u_unit = 2, minCount = 2, maxCount = 3\<rparr>,
              \<lparr>u_unit = 3, minCount = 1, maxCount = 1\<rparr>]
      else if paperType = ''mid2'' then
        Some [\<lparr>u_unit = 3, minCount = 1, maxCount = 1\<rparr>,
              \<lparr>u_unit = 4, minCount = 2, maxCount = 3\<rparr>,
              \<lparr>u_unit = 5, minCount = 2, maxCount = 3\<rparr>]
      else if paperType = ''special'' then
        Some [\<lparr>u_unit = 1, minCount = 1, maxCount = 2\<rparr>,
              \<lparr>u_unit = 2, minCount = 1, maxCount = 2\<rparr>,
              \<lparr>u_unit = 3, minCount = 1, maxCount = 2\<rparr>,
              \<lparr>u_unit = 4, minCount = 1, maxCount = 2\<rparr>,
              \<lparr>u_unit = 5, minCount = 1, maxCount = 2\<rparr>]
      else None)"

text \<open>Steps 1 to 3: they do not look at the paper type.\<close>

definition assessBank_v1 :: "bank \<Rightarrow> error + (string list \<times> btl_req list)" where
  "assessBank_v1 questionBank =
     (case questionBank of
        None \<Rightarrow> Inl FewerThanSix
      | Some qb \<Rightarrow>
     if length qb < 6 then Inl FewerThanSix else
     (case assessAvailable qb of
        Inl e \<Rightarrow> Inl e
      | Inr avail \<Rightarrow>
     (let btLevels = filter (\<lambda>btl. btl > 0) (map parsedLevel qb)
      in if length btLevels = 0 then Inl NoValidBTLevels else
     (case defineBtlRequirements_v1 (Max (set btLevels)) avail of
        Inl e \<Rightarrow> Inl e
      | Inr bReqs \<Rightarrow> Inr (avail, bReqs)))))"

text \<open>Step 4 follows; only then is \<open>selectQuestions\<close> called.\<close>

definition prepare_v1 ::
  "bank \<Rightarrow> string \<Rightarrow> error + (string list \<times> btl_req list \<times> unit_req list)" where
  "prepare_v1 questionBank paperType =
     (case assessBank_v1 questionBank of
        Inl e \<Rightarrow> Inl e
      | Inr (avail, bReqs) \<Rightarrow>
          (case unitRequirements_v1 paperType of
             None \<Rightarrow> Inl InvalidPaperType
           | Some uReqs \<Rightarrow> Inr (avail, bReqs, uReqs)))"

section \<open>Properties of a result, and the slot loop as specified\<close>

text \<open>The questions picked for a list of slots, labelled in slot order.\<close>

definition labelled :: "string \<Rightarrow> bank_entry list \<Rightarrow> slot list \<Rightarrow> selected list" where
  "labelled p qs ls = map (\<lambda>(q, l). withLabel q (slot_label l) p) (zip qs ls)"

text \<open>
  Every unit requirement of the paper type holds of the two parts: the exact count of
  Part A, the range of Part B.
\<close>

definition unitQuotasMet :: "string \<Rightarrow> selected list \<Rightarrow> selected list \<Rightarrow> bool" where
  "unitQuotasMet paperType partA partB =
     (case requirementsFor paperType of
        None \<Rightarrow> False
      | Some (aReqs, uReqs) \<Rightarrow>
          list_all (\<lambda>r. length (filter (\<lambda>s. unit s = uc_unit r) partA) = uc_count r) aReqs
          \<and> list_all (\<lambda>r. minCount r \<le> length (filter (\<lambda>s. unit s = u_unit r) partB)
                         \<and> length (filter (\<lambda>s. unit s = u_unit r) partB) \<le> maxCount r) uReqs)"

text \<open>
  Every slot of the paper type is filled once, by a question of the slot's unit: Part A
  in slot order, Part B up to its final sort.
\<close>

definition slotsFilled :: "string \<Rightarrow> selected list \<Rightarrow> selected list \<Rightarrow> bool" where
  "slotsFilled paperType partA partB =
     (case labelsFor paperType of
        None \<Rightarrow> False
      | Some (qLabels, aLabels) \<Rightarrow>
          map (\<lambda>s. (label s, unit s)) partA = map (\<lambda>l. (slot_label l, slot_unit l)) aLabels
          \<and> distinct (map label partB)
          \<and> set (map (\<lambda>s. (label s, unit s)) partB)
              = set (map (\<lambda>l. (slot_label l, slot_unit l)) qLabels))"

text \<open>
  The weakest reading of "every difficulty quota is met": each requirement with a fixed
  level finds at least its count of questions of that level in Part B.
\<close>

definition difficultyQuotasMet :: "btl_req list \<Rightarrow> selected list \<Rightarrow> bool" where
  "difficultyQuotasMet reqs partB =
     list_all (\<lambda>r. level r = ''random''
                 \<or> count r \<le> length (filter (\<lambda>s. btLevel s = level r) partB)) reqs"

text \<open>The errors thrown before the first random draw, the \<open>TypeError\<close>s apart.\<close>

fun raisedBeforeSampling :: "error \<Rightarrow> bool" where
  "raisedBeforeSampling (InsufficientQuestionBank n) = True"
| "raisedBeforeSampling InvalidPaperType = True"
| "raisedBeforeSampling (InsufficientL1 u have need) = True"
| "raisedBeforeSampling (InsufficientL2toL6 u have need) = True"
| "raisedBeforeSampling NoValidBTLevels = True"
| "raisedBeforeSampling (UnsupportedCase m bs) = True"
| "raisedBeforeSampling e = False"



section \<open>Sample data\<close>

definition sampleRow :: "string \<Rightarrow> string \<Rightarrow> row" where
  "sampleRow lvl u =
     \<lparr> col_BT_Level = lvl, col_Unit = u, col_Question = ''Define a stack.'',
       col_Subject_Code = ''CS201'', col_Subject = ''Data Structures'', col_Branch = ''CSE'',
       col_Regulation = ''R20'', col_Year = ''II'', col_Sem = ''I'', col_Month = [],
       col_Image_Url = [], col_SNO = [] \<rparr>"

definition sampleQuestion :: "nat \<Rightarrow> nat \<Rightarrow> string \<Rightarrow> bank_entry" where
  "sampleQuestion i u lvl =
     \<lparr> q_id = i, unit = u, question = ''Define a stack.'', btLevel = lvl,
       subjectCode = ''CS201'', subject = ''Data Structures'', branch = ''CSE'',
       regulation = ''R20'', year = ''II'', semester = ''I'', month = [], imageUrl = [],
       sno = [] \<rparr>"

text \<open>A sheet of 21 rows, two of which are dropped, and the bank it gives.\<close>

definition sampleRows :: "row list" where
  "sampleRows = map (\<lambda>(lvl, u). sampleRow lvl u)
     [(''L1'', ''I''), (''L1'', ''I''), (''L2'', ''I''), (''L2'', ''I''), (''L3'', ''I''),
      (''L3'', ''I''), (''L4'', ''I''), (''L1'', ''II''), (''L1'', ''II''), (''L2'', ''II''),
      (''L3'', ''II''), ('''', ''II''), (''L3'', ''II''), (''L4'', ''II''), (''L5'', ''II''),
      (''L1'', ''III''), (''L3'', ''III''), (''L6'', ''III''), (''L2'', ''i''),
      (''L2'', ''VI''), (''l1'', ''iii'')]"

definition sampleBank :: "bank_entry list" where
  "sampleBank = map (\<lambda>(i, u, lvl). sampleQuestion i u lvl)
     [(1, 1, ''1''), (2, 1, ''1''), (3, 1, ''2''), (4, 1, ''2''), (5, 1, ''3''),
      (6, 1, ''3''), (7, 1, ''4''), (8, 2, ''1''), (9, 2, ''1''), (10, 2, ''2''),
      (11, 2, ''3''), (13, 2, ''3''), (14, 2, ''4''), (15, 2, ''5''), (16, 3, ''1''),
      (17, 3, ''3''), (18, 3, ''6''), (19, 1, ''2''), (21, 3, ''1'')]"

text \<open>Two random sources, and the paper the second one draws from the sample bank.\<close>

definition firstRnd :: rng where
  "firstRnd k = 0"

definition sampleRnd :: rng where
  "sampleRnd k = 7 * k + 3"

definition samplePartA :: "selected list" where
  "samplePartA = map (\<lambda>(i, l). withLabel (sampleBank ! i) l ''A'')
     [(1, ''1''), (0, ''2''), (8, ''3''), (7, ''4''), (18, ''5'')]"

definition samplePartB :: "selected list" where
  "samplePartB = map (\<lambda>(i, l). withLabel (sampleBank ! i) l ''B'')
     [(17, ''2a''), (3, ''2b''), (2, ''3a''), (6, ''3b''), (4, ''6b''), (11, ''4a''),
      (10, ''4b''), (9, ''5a''), (12, ''5b''), (13, ''7b''), (16, ''6a''), (15, ''7a'')]"


text \<open>A bank whose Part B questions are all of level 3, and the paper drawn from it.\<close>

definition bankLevel3 :: "bank_entry list" where
  "bankLevel3 = map (\<lambda>(i, u, lvl). sampleQuestion i u lvl)
     [(1, 1, ''1''), (2, 1, ''1''), (3, 2, ''1''), (4, 2, ''1''), (5, 3, ''1''),
      (6, 1, ''3''), (7, 1, ''3''), (8, 1, ''3''), (9, 1, ''3''), (10, 1, ''3''),
      (11, 2, ''3''), (12, 2, ''3''), (13, 2, ''3''), (14, 2, ''3''), (15, 2, ''3''),
      (16, 3, ''3''), (17, 3, ''3'')]"

definition level3PartA :: "selected list" where
  "level3PartA = map (\<lambda>(i, l). withLabel (bankLevel3 ! i) l ''A'')
     [(0, ''1''), (1, ''2''), (2, ''3''), (3, ''4''), (4, ''5'')]"

definition level3PartB :: "selected list" where
  "level3PartB = map (\<lambda>(i, l). withLabel (bankLevel3 ! i) l ''B'')
     [(5, ''2a''), (6, ''2b''), (7, ''3a''), (8, ''3b''), (9, ''6b''), (10, ''4a''),
      (11, ''4b''), (12, ''5a''), (13, ''5b''), (14, ''7b''), (15, ''6a''), (16, ''7a'')]"

text \<open>A sheet too short for a paper.\<close>

definition shortRows :: "row list" where
  "shortRows = [sampleRow '' L2 '' ''iv'', sampleRow ''L3'' ''7'', sampleRow [] ''I'',
                sampleRow ''l4'' ''V'']"

section \<open>Lemmas on the normalisation\<close>

lemma enumerate0_mem: "(i, r) \<in> set (enumerate 0 xs) \<longleftrightarrow> i < length xs \<and> xs ! i = r"
  by (simp add: in_set_enumerate_eq)

lemma kept_mem:
  "q \<in> set (filter keepEntry (map (\<lambda>(index, r). f index r) (enumerate 0 data))) \<longleftrightarrow>
     (\<exists>i < length data. q = f i (data ! i) \<and> keepEntry q)"
proof -
  have "q \<in> (\<lambda>(index, r). f index r) ` set (enumerate 0 data)
          \<longleftrightarrow> (\<exists>i < length data. q = f i (data ! i))"
  proof
    assume "q \<in> (\<lambda>(index, r). f index r) ` set (enumerate 0 data)"
    then obtain i r where "(i, r) \<in> set (enumerate 0 data)" "q = f i r"
      by auto
    then show "\<exists>i < length data. q = f i (data ! i)"
      by (auto simp: enumerate0_mem)
  next
    assume "\<exists>i < length data. q = f i (data ! i)"
    then obtain i where i: "i < length data" "q = f i (data ! i)"
      by auto
    then have "(i, data ! i) \<in> set (enumerate 0 data)"
      by (simp add: enumerate0_mem)
    then show "q \<in> (\<lambda>(index, r). f index r) ` set (enumerate 0 data)"
      using i(2) by (metis (mono_tags, lifting) case_prod_conv image_eqI)
  qed
  then show ?thesis by auto
qed

lemma processExcelData_mem:
  "q \<in> set (processExcelData data) \<longleftrightarrow>
     (\<exists>i < length data. q = toEntry i (data ! i) \<and> keepEntry q)"
  unfolding processExcelData_def by (rule kept_mem)

lemma processExcelData_v1_mem:
  "q \<in> set (processExcelData_v1 data) \<longleftrightarrow>
     (\<exists>i < length data. q = toEntry_v1 i (data ! i) \<and> keepEntry q)"
  unfolding processExcelData_v1_def by (rule kept_mem)

lemma toEntry_btLevel_nonempty: "btLevel (toEntry i r) \<noteq> []"
  by (simp add: toEntry_def Let_def)

lemma toEntry_v1_btLevel_nonempty: "btLevel (toEntry_v1 i r) \<noteq> []"
  by (simp add: toEntry_v1_def Let_def)

lemma processExcelData_ids_distinct: "distinct (map q_id (processExcelData data))"
proof -
  have "map q_id (map (\<lambda>(index, r). toEntry index r) (enumerate 0 data))
          = map (Suc \<circ> fst) (enumerate 0 data)"
    by (simp add: toEntry_def Let_def case_prod_unfold comp_def)
  also have "\<dots> = map Suc (map fst (enumerate 0 data))"
    by (simp only: map_map)
  finally have "distinct (map q_id (map (\<lambda>(index, r). toEntry index r) (enumerate 0 data)))"
    by (simp add: distinct_map)
  then show ?thesis
    unfolding processExcelData_def by (simp add: distinct_map_filter)
qed

section \<open>Lemmas on the two slot loops\<close>

lemma withLabel_fields [simp]:
  "q_id (withLabel q l p) = q_id q"
  "unit (withLabel q l p) = unit q"
  "btLevel (withLabel q l p) = btLevel q"
  "label (withLabel q l p) = l"
  "part (withLabel q l p) = p"
  by (simp_all add: withLabel_def bank_entry.defs selected.defs)

lemma labelled_Nil [simp]: "labelled p [] ls = []" "labelled p qs [] = []"
  by (simp_all add: labelled_def)

lemma labelled_Cons [simp]:
  "labelled p (q # qs) (l # ls) = withLabel q (slot_label l) p # labelled p qs ls"
  by (simp add: labelled_def)

lemma labelled_maps:
  assumes "length qs = length ls"
  shows "map q_id (labelled p qs ls) = map q_id qs"
    and "map unit (labelled p qs ls) = map unit qs"
    and "map btLevel (labelled p qs ls) = map btLevel qs"
    and "map label (labelled p qs ls) = map slot_label ls"
    and "length (labelled p qs ls) = length ls"
  using assms by (induction qs ls rule: list_induct2; simp)+

lemma randomIndex_less: "0 < n \<Longrightarrow> randomIndex rnd k n < n"
  by (simp add: randomIndex_def)

lemma pickQuestionFromUnitA_Inr:
  assumes "pickQuestionFromUnitA rnd k st u = Inr (q, st')"
  shows "q \<in> set (remainingQuestions st)" and "unit q = u" and "btLevel q = ''1''"
    and "remainingQuestions st' = filter (\<lambda>r. q_id r \<noteq> q_id q) (remainingQuestions st)"
    and "selectedQuestions st' = selectedQuestions st"
    and "unitCount st' = (unitCount st)(u := unitCount st u + 1)"
proof -
  let ?xs = "filter (\<lambda>q. unit q = u \<and> btLevel q = ''1'') (remainingQuestions st)"
  from assms have ne: "?xs \<noteq> []"
    by (auto simp: pickQuestionFromUnitA_def Let_def split: if_splits)
  with assms have q: "q = ?xs ! randomIndex rnd k (length ?xs)"
    and st': "st' = st\<lparr> remainingQuestions :=
                              filter (\<lambda>r. q_id r \<noteq> q_id q) (remainingQuestions st),
                            unitCount := (unitCount st)(unit q := unitCount st (unit q) + 1) \<rparr>"
    by (auto simp: pickQuestionFromUnitA_def Let_def split: if_splits)
  from ne have "randomIndex rnd k (length ?xs) < length ?xs"
    by (simp add: randomIndex_less)
  then have "q \<in> set ?xs" unfolding q by (rule nth_mem)
  then show "q \<in> set (remainingQuestions st)" and u: "unit q = u" and "btLevel q = ''1''"
    by auto
  show "remainingQuestions st' = filter (\<lambda>r. q_id r \<noteq> q_id q) (remainingQuestions st)"
    and "selectedQuestions st' = selectedQuestions st"
    and "unitCount st' = (unitCount st)(u := unitCount st u + 1)"
    using st' u by simp_all
qed

lemma fillPartA_Inr:
  "fillPartA rnd k ls st = Inr (st', k') \<Longrightarrow>
     \<exists>qs. length qs = length ls
        \<and> selectedQuestions st' = selectedQuestions st @ labelled ''A'' qs ls
        \<and> map unit qs = map slot_unit ls
        \<and> set qs \<subseteq> set (remainingQuestions st)
        \<and> (\<forall>q \<in> set qs. btLevel q = ''1'')
        \<and> distinct (map q_id qs)
        \<and> unitCount st' = (\<lambda>u. unitCount st u + count_list (map slot_unit ls) u)"
proof (induction ls arbitrary: k st)
  case Nil
  then show ?case by auto
next
  case (Cons l ls)
  from Cons.prems obtain q st1 where
    pick: "pickQuestionFromUnitA rnd k st (slot_unit l) = Inr (q, st1)"
    and rest: "fillPartA rnd (k + 1) ls
                 (st1\<lparr> selectedQuestions :=
                          selectedQuestions st1 @ [withLabel q (slot_label l) ''A''] \<rparr>)
               = Inr (st', k')"
    by (auto split: sum.splits)
  note p = pickQuestionFromUnitA_Inr [OF pick]
  from Cons.IH [OF rest] obtain qs where qs:
    "length qs = length ls"
    "selectedQuestions st' =
       (selectedQuestions st1 @ [withLabel q (slot_label l) ''A'']) @ labelled ''A'' qs ls"
    "map unit qs = map slot_unit ls"
    "set qs \<subseteq> set (remainingQuestions st1)"
    "\<forall>q \<in> set qs. btLevel q = ''1''"
    "distinct (map q_id qs)"
    "unitCount st' = (\<lambda>u. unitCount st1 u + count_list (map slot_unit ls) u)"
    by auto
  have fresh: "q_id q \<notin> q_id ` set qs"
    using qs(4) p(4) by auto
  have sub: "set qs \<subseteq> set (remainingQuestions st)"
    using qs(4) p(4) by auto
  have "length (q # qs) = length (l # ls)
        \<and> selectedQuestions st' = selectedQuestions st @ labelled ''A'' (q # qs) (l # ls)
        \<and> map unit (q # qs) = map slot_unit (l # ls)
        \<and> set (q # qs) \<subseteq> set (remainingQuestions st)
        \<and> (\<forall>q \<in> set (q # qs). btLevel q = ''1'')
        \<and> distinct (map q_id (q # qs))
        \<and> unitCount st' = (\<lambda>u. unitCount st u + count_list (map slot_unit (l # ls)) u)"
    using qs p fresh sub by (auto simp: fun_eq_iff)
  then show ?case by blast
qed

lemma pickQuestionFromUnitB_Inr:
  assumes "pickQuestionFromUnitB rnd k unitReqs st btl u = Inr (q, st')"
  shows "q \<in> set (remainingQuestions st)" and "unit q = u"
    and "remainingQuestions st' = filter (\<lambda>r. q_id r \<noteq> q_id q) (remainingQuestions st)"
    and "selectedQuestions st' = selectedQuestions st"
    and "unitCount st' = (unitCount st)(u := unitCount st u + 1)"
    and "btlReqs st' = btlReqs st"
proof -
  let ?uq = "filter (\<lambda>q. unit q = u) (remainingQuestions st)"
  let ?bm = "filter (\<lambda>q. Some (btLevel q) = btl) ?uq"
  from assms obtain cands where
    cands: "cands = ?uq \<or> cands = ?bm" and ne: "cands \<noteq> []"
    and q: "q = cands ! randomIndex rnd k (length cands)"
    and st': "st' = st\<lparr> remainingQuestions :=
                              filter (\<lambda>r. q_id r \<noteq> q_id q) (remainingQuestions st),
                          unitCount := (unitCount st)(unit q := unitCount st (unit q) + 1),
                          btlCount := (btlCount st)(btLevel q := btlCount st (btLevel q) + 1) \<rparr>"
    by (auto simp: pickQuestionFromUnitB_def Let_def split: if_splits option.splits)
  from ne have "randomIndex rnd k (length cands) < length cands"
    by (simp add: randomIndex_less)
  then have "q \<in> set cands" unfolding q by (rule nth_mem)
  with cands show "q \<in> set (remainingQuestions st)" and u: "unit q = u"
    by auto
  show "remainingQuestions st' = filter (\<lambda>r. q_id r \<noteq> q_id q) (remainingQuestions st)"
    and "selectedQuestions st' = selectedQuestions st"
    and "unitCount st' = (unitCount st)(u := unitCount st u + 1)"
    and "btlReqs st' = btlReqs st"
    using st' u by simp_all
qed

lemma fillPartB_Inr:
  "fillPartB rnd k avail unitReqs ls st = Inr (st', k') \<Longrightarrow>
     \<exists>qs. length qs = length ls
        \<and> selectedQuestions st' = selectedQuestions st @ labelled ''B'' qs ls
        \<and> map unit qs = map slot_unit ls
        \<and> set qs \<subseteq> set (remainingQuestions st)
        \<and> distinct (map q_id qs)
        \<and> unitCount st' = (\<lambda>u. unitCount st u + count_list (map slot_unit ls) u)"
proof (induction ls arbitrary: k st)
  case Nil
  then show ?case by auto
next
  case (Cons l ls)
  from Cons.prems obtain b reqs' k1 where
    nb: "nextBtl rnd k (btlReqs st) = Inr (b, reqs', k1)"
    by (auto split: sum.splits)
  define btl where
    "btl = (if falsy b then at avail (randomIndex rnd k1 (length avail)) else b)"
  define k2 where "k2 = (if falsy b then k1 + 1 else k1)"
  from Cons.prems nb obtain q st1 where
    pick: "pickQuestionFromUnitB rnd k2 unitReqs (st\<lparr>btlReqs := reqs'\<rparr>) btl (slot_unit l)
             = Inr (q, st1)"
    and rest: "fillPartB rnd (k2 + 1) avail unitReqs ls
                 (st1\<lparr> selectedQuestions :=
                          selectedQuestions st1 @ [withLabel q (slot_label l) ''B''] \<rparr>)
               = Inr (st', k')"
    by (auto simp: Let_def btl_def k2_def split: sum.splits)
  note p = pickQuestionFromUnitB_Inr [OF pick]
  from Cons.IH [OF rest] obtain qs where qs:
    "length qs = length ls"
    "selectedQuestions st' =
       (selectedQuestions st1 @ [withLabel q (slot_label l) ''B'']) @ labelled ''B'' qs ls"
    "map unit qs = map slot_unit ls"
    "set qs \<subseteq> set (remainingQuestions st1)"
    "distinct (map q_id qs)"
    "unitCount st' = (\<lambda>u. unitCount st1 u + count_list (map slot_unit ls) u)"
    by auto
  have fresh: "q_id q \<notin> q_id ` set qs"
    using qs(4) p(3) by auto
  have sub: "set qs \<subseteq> set (remainingQuestions st)"
    using qs(4) p(3) by auto
  have "length (q # qs) = length (l # ls)
        \<and> selectedQuestions st' = selectedQuestions st @ labelled ''B'' (q # qs) (l # ls)
        \<and> map unit (q # qs) = map slot_unit (l # ls)
        \<and> set (q # qs) \<subseteq> set (remainingQuestions st)
        \<and> distinct (map q_id (q # qs))
        \<and> unitCount st' = (\<lambda>u. unitCount st u + count_list (map slot_unit (l # ls)) u)"
    using qs p fresh sub by (auto simp: fun_eq_iff)
  then show ?case by blast
qed

lemma labelled_slots:
  "length qs = length ls \<Longrightarrow> map unit qs = map slot_unit ls \<Longrightarrow>
     map (\<lambda>s. (label s, unit s)) (labelled p qs ls) = map (\<lambda>l. (slot_label l, slot_unit l)) ls"
  by (induction qs ls rule: list_induct2) simp_all

lemma length_filter_count:
  "length (filter (\<lambda>s. f s = u) xs) = count_list (map f xs) u"
  by (induction xs) simp_all

lemma paperType_cases:
  "requirementsFor pt = Some r \<Longrightarrow> pt = ''mid1'' \<or> pt = ''mid2''"
  by (auto simp: requirementsFor_def split: if_splits)

subsection \<open>The sort\<close>

lemma set_insertSorted [simp]: "set (insertSorted cmp x ys) = insert x (set ys)"
  by (induction ys) auto

lemma length_insertSorted [simp]: "length (insertSorted cmp x ys) = Suc (length ys)"
  by (induction ys) auto

lemma filter_insertSorted:
  "length (filter P (insertSorted cmp x ys)) = length (filter P (x # ys))"
  by (induction ys) auto

lemma distinct_map_insertSorted:
  "distinct (map f (insertSorted cmp x ys)) = distinct (map f (x # ys))"
  by (induction ys) auto

lemma sortBy_simps [simp]:
  "sortBy cmp [] = []"
  "sortBy cmp (x # xs) = insertSorted cmp x (sortBy cmp xs)"
  by (simp_all add: sortBy_def)

lemma set_sortBy [simp]: "set (sortBy cmp xs) = set xs"
  by (induction xs) simp_all

lemma length_sortBy [simp]: "length (sortBy cmp xs) = length xs"
  by (induction xs) simp_all

lemma filter_sortBy: "length (filter P (sortBy cmp xs)) = length (filter P xs)"
  by (induction xs) (simp_all add: filter_insertSorted)

lemma distinct_map_sortBy: "distinct (map f (sortBy cmp xs)) = distinct (map f xs)"
  by (induction xs) (simp_all add: distinct_map_insertSorted)

lemma sorted_insertSorted:
  assumes total: "\<And>a b. cmp a b \<le> 0 \<or> cmp b a \<le> 0"
    and trans: "\<And>a b c. cmp a b \<le> 0 \<Longrightarrow> cmp b c \<le> 0 \<Longrightarrow> cmp a c \<le> 0"
  shows "sorted_wrt (\<lambda>a b. cmp a b \<le> 0) ys
           \<Longrightarrow> sorted_wrt (\<lambda>a b. cmp a b \<le> 0) (insertSorted cmp x ys)"
proof (induction ys)
  case Nil
  then show ?case by simp
next
  case (Cons y ys)
  show ?case
  proof (cases "cmp x y \<le> 0")
    case True
    with Cons.prems trans show ?thesis by auto
  next
    case False
    with total have "cmp y x \<le> 0" by blast
    with False Cons show ?thesis by auto
  qed
qed

lemma sorted_sortBy:
  assumes "\<And>a b. cmp a b \<le> 0 \<or> cmp b a \<le> 0"
    and "\<And>a b c. cmp a b \<le> 0 \<Longrightarrow> cmp b c \<le> 0 \<Longrightarrow> cmp a c \<le> 0"
  shows "sorted_wrt (\<lambda>a b. cmp a b \<le> 0) (sortBy cmp xs)"
proof (induction xs)
  case Nil
  then show ?case by simp
next
  case (Cons x xs)
  then show ?case
    using sorted_insertSorted [of cmp, OF assms] by simp
qed

lemma compareB_le:
  "compareB a b \<le> 0 \<longleftrightarrow>
     unit a < unit b
     \<or> (unit a = unit b \<and> indexOf labelOrder (label a) \<le> indexOf labelOrder (label b))"
  by (auto simp: compareB_def)

lemma sorted_compareB: "sorted_wrt (\<lambda>a b. compareB a b \<le> 0) (sortBy compareB xs)"
  by (rule sorted_sortBy) (auto simp: compareB_le)

subsection \<open>What a successful run returns\<close>

lemma prepare_Inr:
  assumes "prepare qb pt = Inr p"
  shows "\<exists>bank. qb = Some bank \<and> 17 \<le> length bank
           \<and> partAQuestions p = filter isPartA bank
           \<and> partBQuestions p = filter isPartB bank
           \<and> requirementsFor pt = Some (partAUnitRequirements p, unitRequirements p)
           \<and> labelsFor pt = Some (questionLabels p, partALabels p)"
  using assms unfolding prepare_def Let_def
  by (auto split: option.splits if_splits sum.splits prod.splits)

lemma selectPartAQuestions_Inr:
  assumes "selectPartAQuestions rnd k pa unitReqs labels = Inr (a, k')"
  shows "\<exists>qs. length qs = length labels \<and> a = labelled ''A'' qs labels
           \<and> map unit qs = map slot_unit labels \<and> set qs \<subseteq> set pa
           \<and> (\<forall>q \<in> set qs. btLevel q = ''1'') \<and> distinct (map q_id qs)"
proof -
  from assms obtain st where
    "fillPartA rnd k labels
       \<lparr> selectedQuestions = [], unitCount = (\<lambda>u. 0), remainingQuestions = pa \<rparr>
     = Inr (st, k')" and "a = selectedQuestions st"
    by (auto simp: selectPartAQuestions_def split: sum.splits option.splits)
  from fillPartA_Inr [OF this(1)] this(2) show ?thesis
    by auto
qed

lemma selectPartBQuestions_Inr:
  assumes "selectPartBQuestions rnd k pb avail bReqs unitReqs labels = Inr (b, k')"
  shows "\<exists>qs. length qs = length labels \<and> b = sortBy compareB (labelled ''B'' qs labels)
           \<and> map unit qs = map slot_unit labels \<and> set qs \<subseteq> set pb
           \<and> distinct (map q_id qs)"
proof -
  from assms obtain st where
    "fillPartB rnd k avail unitReqs labels
       \<lparr> selectedQuestions = [], unitCount = (\<lambda>u. 0), remainingQuestions = pb,
         btlCount = (\<lambda>b. 0), btlReqs = bReqs \<rparr>
     = Inr (st, k')" and "b = sortBy compareB (selectedQuestions st)"
    by (auto simp: selectPartBQuestions_def split: sum.splits option.splits)
  from fillPartB_Inr [OF this(1)] this(2) show ?thesis
    by auto
qed

lemma generateQuestions_Inr:
  assumes "generateQuestions rnd qb pt = Inr (a, b)"
  shows "\<exists>p bank qsA qsB.
           prepare qb pt = Inr p \<and> qb = Some bank
           \<and> requirementsFor pt = Some (partAUnitRequirements p, unitRequirements p)
           \<and> labelsFor pt = Some (questionLabels p, partALabels p)
           \<and> length qsA = length (partALabels p)
           \<and> a = labelled ''A'' qsA (partALabels p)
           \<and> map unit qsA = map slot_unit (partALabels p)
           \<and> set qsA \<subseteq> set (filter isPartA bank)
           \<and> distinct (map q_id qsA)
           \<and> length qsB = length (questionLabels p)
           \<and> b = sortBy compareB (labelled ''B'' qsB (questionLabels p))
           \<and> map unit qsB = map slot_unit (questionLabels p)
           \<and> set qsB \<subseteq> set (filter isPartB bank)
           \<and> distinct (map q_id qsB)"
proof -
  from assms obtain p k k' where
    p: "prepare qb pt = Inr p"
    and sa: "selectPartAQuestions rnd 0 (partAQuestions p) (partAUnitRequirements p)
               (partALabels p) = Inr (a, k)"
    and sb: "selectPartBQuestions rnd k (partBQuestions p) (availableBTLs p)
               (btlRequirements p) (unitRequirements p) (questionLabels p) = Inr (b, k')"
    by (auto simp: generateQuestions_def split: sum.splits if_splits)
  from prepare_Inr [OF p] obtain bank where bank:
    "qb = Some bank" "partAQuestions p = filter isPartA bank"
    "partBQuestions p = filter isPartB bank"
    "requirementsFor pt = Some (partAUnitRequirements p, unitRequirements p)"
    "labelsFor pt = Some (questionLabels p, partALabels p)"
    by blast
  from selectPartAQuestions_Inr [OF sa] obtain qsA where qsA:
    "length qsA = length (partALabels p)" "a = labelled ''A'' qsA (partALabels p)"
    "map unit qsA = map slot_unit (partALabels p)" "set qsA \<subseteq> set (partAQuestions p)"
    "distinct (map q_id qsA)"
    by blast
  from selectPartBQuestions_Inr [OF sb] obtain qsB where qsB:
    "length qsB = length (questionLabels p)"
    "b = sortBy compareB (labelled ''B'' qsB (questionLabels p))"
    "map unit qsB = map slot_unit (questionLabels p)" "set qsB \<subseteq> set (partBQuestions p)"
    "distinct (map q_id qsB)"
    by blast
  from p bank qsA qsB show ?thesis
    by (intro exI [of _ p] exI [of _ bank] exI [of _ qsA] exI [of _ qsB]) simp
qed


subsection \<open>The code's pick and the specified pick\<close>



subsection \<open>Errors of the selection\<close>

lemma pickQuestionFromUnitA_Inl:
  "raisedBeforeSampling e \<Longrightarrow> pickQuestionFromUnitA rnd k st u \<noteq> Inl e"
  by (auto simp: pickQuestionFromUnitA_def Let_def split: if_splits)

lemma fillPartA_Inl:
  "raisedBeforeSampling e \<Longrightarrow> fillPartA rnd k ls st \<noteq> Inl e"
  by (induction ls arbitrary: k st)
     (auto simp: pickQuestionFromUnitA_Inl split: sum.splits)

lemma validatePartA_Some:
  "raisedBeforeSampling e \<Longrightarrow> validatePartA uc reqs \<noteq> Some e"
  by (induction reqs) auto

lemma validatePartB_Some:
  "raisedBeforeSampling e \<Longrightarrow> validatePartB uc reqs \<noteq> Some e"
  by (induction reqs) auto

lemma nextBtl_Inl: "raisedBeforeSampling e \<Longrightarrow> nextBtl rnd k reqs \<noteq> Inl e"
  by (induction reqs) (auto split: sum.splits)

lemma pickQuestionFromUnitB_Inl:
  "raisedBeforeSampling e \<Longrightarrow> pickQuestionFromUnitB rnd k unitReqs st btl u \<noteq> Inl e"
  by (auto simp: pickQuestionFromUnitB_def Let_def split: if_splits option.splits)

lemma fillPartB_Inl:
  "raisedBeforeSampling e \<Longrightarrow> fillPartB rnd k avail unitReqs ls st \<noteq> Inl e"
  by (induction ls arbitrary: k st)
     (auto simp: Let_def nextBtl_Inl pickQuestionFromUnitB_Inl split: sum.splits)

lemma selectPartAQuestions_Inl:
  "raisedBeforeSampling e \<Longrightarrow> selectPartAQuestions rnd k pa unitReqs labels \<noteq> Inl e"
  by (auto simp: selectPartAQuestions_def fillPartA_Inl validatePartA_Some
        split: sum.splits option.splits)

lemma selectPartBQuestions_Inl:
  "raisedBeforeSampling e \<Longrightarrow>
     selectPartBQuestions rnd k pb avail bReqs unitReqs labels \<noteq> Inl e"
  by (auto simp: selectPartBQuestions_def fillPartB_Inl validatePartB_Some
        split: sum.splits option.splits)

lemma generateQuestions_early:
  "raisedBeforeSampling e \<Longrightarrow>
     generateQuestions rnd qb pt = Inl e \<longleftrightarrow> prepare qb pt = Inl e"
  by (auto simp: generateQuestions_def selectPartAQuestions_Inl selectPartBQuestions_Inl
        split: sum.splits if_splits)

subsection \<open>The upload replaces the bank\<close>

lemma upload_replaces_bank:
  "snd (serve rnd qb (Upload jsonData)) = Some (processExcelData jsonData)"
  by (simp add: uploadHandler_def Let_def)

subsection \<open>The two size gates\<close>

text \<open>
  What the two tests of the size do: the upload handler's reply to a short sheet, and
  the first branch of \<open>generateQuestions\<close>.
\<close>

lemma size_gates:
  "(length (processExcelData jsonData) < 17 \<longrightarrow>
      fst (uploadHandler old jsonData) = UploadInsufficient (length (processExcelData jsonData))
      \<and> uploadStatus (fst (uploadHandler old jsonData)) = 400)
   \<and> (length qb < 17 \<longrightarrow>
      generateQuestions rnd (Some qb) paperType = Inl (InsufficientQuestionBank (length qb)))"
  by (simp add: uploadHandler_def generateQuestions_def prepare_def Let_def)

text \<open>A sheet that is answered with the size error is stored all the same.\<close>

lemma short_upload_is_stored:
  assumes "length (processExcelData jsonData) < 17"
  shows "fst (uploadHandler old jsonData)
           = UploadInsufficient (length (processExcelData jsonData))"
    and "snd (uploadHandler old jsonData) = Some (processExcelData jsonData)"
  using assms by (simp_all add: uploadHandler_def Let_def)

subsection \<open>Runs on the sample data\<close>

lemma sampleBank_uploaded: "processExcelData sampleRows = sampleBank"
  by code_simp

lemma sample_run:
  "generateQuestions sampleRnd (Some sampleBank) ''mid1'' = Inr (samplePartA, samplePartB)"
  by code_simp

lemma level3_run:
  "generateQuestions firstRnd (Some bankLevel3) ''mid1'' = Inr (level3PartA, level3PartB)"
  by code_simp

lemma level3_requirements:
  "prepare (Some bankLevel3) ''mid1'' =
     Inr \<lparr> partAQuestions = filter isPartA bankLevel3,
           partBQuestions = filter isPartB bankLevel3,
           partAUnitRequirements = fst (the (requirementsFor ''mid1'')),
           unitRequirements = snd (the (requirementsFor ''mid1'')),
           availableBTLs = [''3''],
           btlRequirements =
             [\<lparr>level = ''2'', options = [], count = 5\<rparr>,
              \<lparr>level = ''3'', options = [], count = 5\<rparr>,
              \<lparr>level = ''random'', options = [''2'', ''3''], count = 2\<rparr>],
           questionLabels = fst (the (labelsFor ''mid1'')),
           partALabels = snd (the (labelsFor ''mid1'')) \<rparr>"
  by code_simp

section \<open>The claims\<close>

subsection \<open>C1: a returned selection is complete\<close>

text \<open>
  Claim C1, as amended. Whenever \<open>generateQuestions\<close> returns a selection, for any bank,
  paper type and random draws, Part A has 5 questions and Part B has 12, every slot label
  is filled exactly once by a question of the slot's unit, and every unit requirement
  holds: the exact counts of Part A and the range \<open>[minCount, maxCount]\<close> of Part B.
  Otherwise the call ends in an error. The difficulty requirements are not part of the
  guarantee: they steer the picks, and a slot falls back to any level of its unit.
\<close>

theorem generateQuestions_complete:
  assumes "generateQuestions rnd qb pt = Inr (a, b)"
  shows "length a = 5 \<and> length b = 12 \<and> unitQuotasMet pt a b \<and> slotsFilled pt a b"
proof -
  from generateQuestions_Inr [OF assms] obtain p :: plan and qsA qsB where
    req: "requirementsFor pt = Some (partAUnitRequirements p, unitRequirements p)"
    and lab: "labelsFor pt = Some (questionLabels p, partALabels p)"
    and la: "length qsA = length (partALabels p)"
    and a: "a = labelled ''A'' qsA (partALabels p)"
    and ua: "map unit qsA = map slot_unit (partALabels p)"
    and lb: "length qsB = length (questionLabels p)"
    and b: "b = sortBy compareB (labelled ''B'' qsB (questionLabels p))"
    and ub: "map unit qsB = map slot_unit (questionLabels p)"
    by blast
  have mua: "map unit a = map slot_unit (partALabels p)"
    using a la ua by (simp add: labelled_maps)
  have cb: "length (filter (\<lambda>s. unit s = u) b)
              = count_list (map slot_unit (questionLabels p)) u" for u
  proof -
    have "length (filter (\<lambda>s. unit s = u) b)
            = length (filter (\<lambda>s. unit s = u) (labelled ''B'' qsB (questionLabels p)))"
      unfolding b by (rule filter_sortBy)
    also have "\<dots> = count_list (map unit (labelled ''B'' qsB (questionLabels p))) u"
      by (rule length_filter_count)
    finally show ?thesis using lb ub by (simp add: labelled_maps)
  qed
  have sa: "map (\<lambda>s. (label s, unit s)) a
              = map (\<lambda>l. (slot_label l, slot_unit l)) (partALabels p)"
    using a la ua by (simp add: labelled_slots)
  have db: "distinct (map label b) = distinct (map slot_label (questionLabels p))"
    using b lb by (simp add: distinct_map_sortBy labelled_maps)
  have sb: "set (map (\<lambda>s. (label s, unit s)) b)
              = set (map (\<lambda>l. (slot_label l, slot_unit l)) (questionLabels p))"
  proof -
    have "set (map (\<lambda>s. (label s, unit s)) b)
            = set (map (\<lambda>s. (label s, unit s)) (labelled ''B'' qsB (questionLabels p)))"
      unfolding b by simp
    then show ?thesis using lb ub by (simp add: labelled_slots)
  qed
  have len: "length a = length (partALabels p)" "length b = length (questionLabels p)"
    using a b la lb by (simp_all add: labelled_maps)
  from paperType_cases [OF req] show ?thesis
  proof
    assume pt: "pt = ''mid1''"
    from req lab have cat:
      "partAUnitRequirements p = fst (the (requirementsFor ''mid1''))"
      "unitRequirements p = snd (the (requirementsFor ''mid1''))"
      "questionLabels p = fst (the (labelsFor ''mid1''))"
      "partALabels p = snd (the (labelsFor ''mid1''))"
      unfolding pt by simp_all
    have l: "length a = 5" "length b = 12"
      using len unfolding cat by (simp_all add: labelsFor_def)
    have q: "unitQuotasMet pt a b"
      unfolding unitQuotasMet_def pt
      using mua cb unfolding cat
      by (simp add: requirementsFor_def labelsFor_def length_filter_count)
    have s: "slotsFilled pt a b"
      unfolding slotsFilled_def pt
      using sa sb db unfolding cat
      by (simp add: labelsFor_def)
    from l q s show ?thesis by simp
  next
    assume pt: "pt = ''mid2''"
    from req lab have cat:
      "partAUnitRequirements p = fst (the (requirementsFor ''mid2''))"
      "unitRequirements p = snd (the (requirementsFor ''mid2''))"
      "questionLabels p = fst (the (labelsFor ''mid2''))"
      "partALabels p = snd (the (labelsFor ''mid2''))"
      unfolding pt by simp_all
    have l: "length a = 5" "length b = 12"
      using len unfolding cat by (simp_all add: labelsFor_def)
    have q: "unitQuotasMet pt a b"
      unfolding unitQuotasMet_def pt
      using mua cb unfolding cat
      by (simp add: requirementsFor_def labelsFor_def length_filter_count)
    have s: "slotsFilled pt a b"
      unfolding slotsFilled_def pt
      using sa sb db unfolding cat
      by (simp add: labelsFor_def)
    from l q s show ?thesis by simp
  qed
qed

text \<open>
  Claim C1, witness: the paper drawn from the sample bank for \<open>mid1\<close> is complete.
\<close>

theorem generateQuestions_complete_witness:
  "generateQuestions sampleRnd (Some sampleBank) ''mid1'' = Inr (samplePartA, samplePartB)
   \<and> length samplePartA = 5 \<and> length samplePartB = 12
   \<and> unitQuotasMet ''mid1'' samplePartA samplePartB
   \<and> slotsFilled ''mid1'' samplePartA samplePartB"
  using generateQuestions_complete [OF sample_run] sample_run by simp

text \<open>
  Claim C1, counterexample to the claim as stated. A bank with five level-1 questions and
  twelve level-3 questions passes every check; its highest level is 3, so the
  requirements ask for five questions of level 2. The call returns a paper whose Part B
  holds no question of level 2: the difficulty quotas are not met, in any reading.
\<close>

theorem difficulty_quota_missed:
  "\<not> isl (generateQuestions firstRnd (Some bankLevel3) ''mid1'')
   \<and> btlRequirements (projr (prepare (Some bankLevel3) ''mid1''))
       = [\<lparr>level = ''2'', options = [], count = 5\<rparr>,
          \<lparr>level = ''3'', options = [], count = 5\<rparr>,
          \<lparr>level = ''random'', options = [''2'', ''3''], count = 2\<rparr>]
   \<and> length (filter (\<lambda>s. btLevel s = ''2'')
               (snd (projr (generateQuestions firstRnd (Some bankLevel3) ''mid1'')))) = 0
   \<and> \<not> difficultyQuotasMet (btlRequirements (projr (prepare (Some bankLevel3) ''mid1'')))
         (snd (projr (generateQuestions firstRnd (Some bankLevel3) ''mid1'')))"
  unfolding level3_run level3_requirements by code_simp

subsection \<open>C2: how a Part B slot is filled\<close>



subsection \<open>C3: no question is selected twice\<close>

text \<open>
  Claim C3. The bank gives every question an id of its own (\<open>processExcelData\<close> numbers
  the rows, lemma \<open>processExcelData_ids_distinct\<close>). For such a bank, any paper type and
  any random draws, the ids of a returned selection, Part A and Part B together, are
  pairwise distinct.
\<close>

theorem selected_ids_distinct:
  assumes "distinct (map q_id bank)"
    and "generateQuestions rnd (Some bank) pt = Inr (a, b)"
  shows "distinct (map q_id (a @ b))"
proof -
  from generateQuestions_Inr [OF assms(2)] obtain p :: plan and qsA qsB where
    la: "length qsA = length (partALabels p)"
    and a: "a = labelled ''A'' qsA (partALabels p)"
    and sa: "set qsA \<subseteq> set (filter isPartA bank)"
    and da: "distinct (map q_id qsA)"
    and lb: "length qsB = length (questionLabels p)"
    and b: "b = sortBy compareB (labelled ''B'' qsB (questionLabels p))"
    and sb: "set qsB \<subseteq> set (filter isPartB bank)"
    and db: "distinct (map q_id qsB)"
    by blast
  have ia: "map q_id a = map q_id qsA"
    using a la by (simp add: labelled_maps)
  have dB: "distinct (map q_id b)"
    unfolding b using lb db by (simp add: distinct_map_sortBy labelled_maps)
  have "set (map q_id (labelled ''B'' qsB (questionLabels p))) = set (map q_id qsB)"
    using lb by (simp add: labelled_maps)
  then have ib: "q_id ` set b = q_id ` set qsB"
    unfolding b by simp
  have inj: "inj_on q_id (set bank)"
    using assms(1) by (simp add: distinct_map)
  have "q_id ` set qsA \<inter> q_id ` set qsB = {}"
  proof (rule ccontr)
    assume "q_id ` set qsA \<inter> q_id ` set qsB \<noteq> {}"
    then obtain x y where xy: "x \<in> set qsA" "y \<in> set qsB" "q_id x = q_id y"
      by auto
    with sa sb have "x \<in> set bank" "y \<in> set bank" "isPartA x" "isPartB y"
      by auto
    with inj xy(3) have "x = y" "isPartA x" "isPartB y"
      by (auto dest: inj_onD)
    then show False by (simp add: isPartA_def isPartB_def)
  qed
  with ia ib have "set (map q_id a) \<inter> set (map q_id b) = {}"
    by simp
  with ia da dB show ?thesis by simp
qed

text \<open>Claim C3, witness: the paper drawn from the sample bank.\<close>

theorem selected_ids_distinct_witness:
  "distinct (map q_id sampleBank)
   \<and> generateQuestions sampleRnd (Some sampleBank) ''mid1'' = Inr (samplePartA, samplePartB)
   \<and> distinct (map q_id (samplePartA @ samplePartB))"
proof -
  have d: "distinct (map q_id sampleBank)" by code_simp
  from selected_ids_distinct [OF d sample_run] d sample_run show ?thesis by simp
qed

subsection \<open>C4: the feasibility verdict does not depend on the draws\<close>

text \<open>
  Claim C4. An error raised before the first random draw (the size gate, the catalogue
  lookup, the two feasibility loops and the difficulty set-up) is the outcome under one
  random source exactly when it is the outcome under any other; and since a generate
  request leaves the bank as it was, a second check on it gives the same verdict.
\<close>

theorem feasibility_deterministic:
  assumes "raisedBeforeSampling e"
  shows "(generateQuestions rnd1 qb pt = Inl e) = (generateQuestions rnd2 qb pt = Inl e)
         \<and> (generateQuestions rnd2 (snd (generateHandler rnd1 qb pt)) pt = Inl e)
             = (generateQuestions rnd1 qb pt = Inl e)"
  using assms by (simp add: generateQuestions_early generateHandler_def)

text \<open>
  Claim C4, witness: the sample bank has no level-1 question of unit 4, whatever is drawn.
\<close>

theorem feasibility_deterministic_witness:
  "raisedBeforeSampling (InsufficientL1 4 0 2)
   \<and> generateQuestions firstRnd (Some sampleBank) ''mid2'' = Inl (InsufficientL1 4 0 2)
   \<and> generateQuestions sampleRnd (Some sampleBank) ''mid2'' = Inl (InsufficientL1 4 0 2)"
proof -
  have r: "raisedBeforeSampling (InsufficientL1 4 0 2)" by simp
  have g: "generateQuestions firstRnd (Some sampleBank) ''mid2'' = Inl (InsufficientL1 4 0 2)"
    by code_simp
  from feasibility_deterministic [OF r, of firstRnd "Some sampleBank" "''mid2''" sampleRnd] g r
  show ?thesis by simp
qed

subsection \<open>C5: the order of the returned parts\<close>

text \<open>
  Claim C5. In a returned selection Part B is sorted by unit, and within a unit by the
  position of the label in \<open>labelOrder\<close>; Part A, for which no label order is declared,
  keeps the order of its slots.
\<close>

theorem partB_sorted:
  assumes "generateQuestions rnd qb pt = Inr (a, b)"
  shows "sorted_wrt (\<lambda>s t. unit s < unit t
                      \<or> (unit s = unit t
                          \<and> indexOf labelOrder (label s) \<le> indexOf labelOrder (label t))) b
         \<and> map label a = map slot_label (snd (the (labelsFor pt)))"
proof -
  from generateQuestions_Inr [OF assms] obtain p :: plan and qsA qsB where
    lab: "labelsFor pt = Some (questionLabels p, partALabels p)"
    and la: "length qsA = length (partALabels p)"
    and a: "a = labelled ''A'' qsA (partALabels p)"
    and b: "b = sortBy compareB (labelled ''B'' qsB (questionLabels p))"
    by blast
  have "sorted_wrt (\<lambda>s t. compareB s t \<le> 0) b"
    unfolding b by (rule sorted_compareB)
  then have "sorted_wrt (\<lambda>s t. unit s < unit t
                      \<or> (unit s = unit t
                          \<and> indexOf labelOrder (label s) \<le> indexOf labelOrder (label t))) b"
    by (simp add: compareB_le)
  moreover have "map label a = map slot_label (snd (the (labelsFor pt)))"
    using a la lab by (simp add: labelled_maps)
  ultimately show ?thesis by simp
qed

text \<open>Claim C5, witness: the order of the paper drawn from the sample bank.\<close>

theorem partB_sorted_witness:
  "generateQuestions sampleRnd (Some sampleBank) ''mid1'' = Inr (samplePartA, samplePartB)
   \<and> map (\<lambda>s. (unit s, label s)) samplePartB
       = [(1, ''2a''), (1, ''2b''), (1, ''3a''), (1, ''3b''), (1, ''6b''), (2, ''4a''),
          (2, ''4b''), (2, ''5a''), (2, ''5b''), (2, ''7b''), (3, ''6a''), (3, ''7a'')]
   \<and> sorted_wrt (\<lambda>s t. unit s < unit t
                      \<or> (unit s = unit t
                          \<and> indexOf labelOrder (label s) \<le> indexOf labelOrder (label t)))
        samplePartB
   \<and> map label samplePartA = [''1'', ''2'', ''3'', ''4'', ''5'']"
proof -
  have m: "map (\<lambda>s. (unit s, label s)) samplePartB
       = [(1, ''2a''), (1, ''2b''), (1, ''3a''), (1, ''3b''), (1, ''6b''), (2, ''4a''),
          (2, ''4b''), (2, ''5a''), (2, ''5b''), (2, ''7b''), (3, ''6a''), (3, ''7a'')]"
    by code_simp
  have l: "map slot_label (snd (the (labelsFor ''mid1''))) = [''1'', ''2'', ''3'', ''4'', ''5'']"
    by code_simp
  from partB_sorted [OF sample_run] sample_run m l show ?thesis by simp
qed

subsection \<open>C6: a paper type outside the catalogue\<close>

text \<open>
  Claim C6, as amended. For a paper type other than \<open>mid1\<close> and \<open>mid2\<close>, a generate
  request fails and no selection is attempted: \<open>generateQuestions\<close> ends in an error of
  the steps before the selection. The error is the unknown-paper-type error once the
  earlier gate is passed: in the handler whenever a bank has been uploaded, in
  \<open>generateQuestions\<close> whenever the bank has 17 questions or more. In the six-question
  variant, where \<open>special\<close> is a paper type too, the steps before the selection fail, with
  the unknown-paper-type error whenever the steps that do not look at the paper type pass.
\<close>

theorem unknown_paper_type:
  assumes "paperType \<noteq> ''mid1''" and "paperType \<noteq> ''mid2''"
  shows "(\<exists>e. prepare qb paperType = Inl e \<and> generateQuestions rnd qb paperType = Inl e)
         \<and> (qb \<noteq> None \<longrightarrow> fst (generateHandler rnd qb paperType) = InvalidPaperTypeRequest)
         \<and> (\<forall>bank. qb = Some bank \<and> 17 \<le> length bank
               \<longrightarrow> generateQuestions rnd qb paperType = Inl InvalidPaperType)
         \<and> (paperType \<noteq> ''special''
               \<longrightarrow> isl (prepare_v1 qb paperType)
                   \<and> (\<forall>x. assessBank_v1 qb = Inr x
                          \<longrightarrow> prepare_v1 qb paperType = Inl InvalidPaperType))"
proof -
  from assms have none: "requirementsFor paperType = None"
    by (simp add: requirementsFor_def)
  then have p: "\<exists>e. prepare qb paperType = Inl e"
    by (cases qb) (simp_all add: prepare_def Let_def)
  then have 1: "\<exists>e. prepare qb paperType = Inl e \<and> generateQuestions rnd qb paperType = Inl e"
    by (auto simp: generateQuestions_def)
  from assms have 2:
    "qb \<noteq> None \<longrightarrow> fst (generateHandler rnd qb paperType) = InvalidPaperTypeRequest"
    by (simp add: generateHandler_def)
  from none have 3: "\<forall>bank. qb = Some bank \<and> 17 \<le> length bank
               \<longrightarrow> generateQuestions rnd qb paperType = Inl InvalidPaperType"
    by (simp add: generateQuestions_def prepare_def Let_def)
  from assms have 4: "paperType \<noteq> ''special''
               \<longrightarrow> isl (prepare_v1 qb paperType)
                   \<and> (\<forall>x. assessBank_v1 qb = Inr x
                          \<longrightarrow> prepare_v1 qb paperType = Inl InvalidPaperType)"
    by (auto simp: prepare_v1_def unitRequirements_v1_def split: sum.splits)
  from 1 2 3 4 show ?thesis by blast
qed

text \<open>
  Claim C6, witness: the paper type \<open>final\<close> on the sample bank.
\<close>

theorem unknown_paper_type_witness:
  "''final'' \<noteq> ''mid1'' \<and> ''final'' \<noteq> ''mid2''
   \<and> generateQuestions firstRnd (Some sampleBank) ''final'' = Inl InvalidPaperType
   \<and> fst (generateHandler firstRnd (Some sampleBank) ''final'') = InvalidPaperTypeRequest"
proof -
  have a: "''final'' \<noteq> ''mid1''" and b: "''final'' \<noteq> ''mid2''"
    by simp_all
  have n: "17 \<le> length sampleBank"
    by (simp add: sampleBank_def)
  from unknown_paper_type [OF a b, of "Some sampleBank" firstRnd] n a b
  show ?thesis by simp
qed

text \<open>
  Claim C6, counterexample to the claim as stated. Before any upload the handler answers
  the paper type \<open>final\<close> with "No questions available", and \<open>generateQuestions\<close> on a
  bank that is too small throws the size error first, in both variants: the request
  fails, but not with the unknown-paper-type error.
\<close>

theorem unknown_paper_type_other_error:
  "fst (generateHandler firstRnd None ''final'') = NoQuestionsUploaded
   \<and> fst (generateHandler firstRnd None ''final'') \<noteq> InvalidPaperTypeRequest
   \<and> generateQuestions firstRnd (Some []) ''final'' = Inl (InsufficientQuestionBank 0)
   \<and> prepare_v1 (Some []) ''final'' = Inl FewerThanSix"
  by (simp add: generateHandler_def generateQuestions_def prepare_def prepare_v1_def
        assessBank_v1_def)

subsection \<open>C7: a generate request leaves the bank as it was\<close>

text \<open>
  Claim C7. The server's state after a generate request, failed or not, is the state
  before it, so the next request, a retry or another paper type, is served as if the
  first had not been made. (An upload is different: it replaces the bank even when its
  reply is an error, lemma \<open>upload_replaces_bank\<close>.)
\<close>

theorem generate_leaves_bank:
  "snd (serve rnd qb (Generate paperType)) = qb
   \<and> serve rnd' (snd (serve rnd qb (Generate paperType))) req = serve rnd' qb req"
  by (simp add: generateHandler_def)

text \<open>
  Claim C7, witness: a request for \<open>mid2\<close> fails on the sample bank and leaves it in
  place.
\<close>

theorem generate_leaves_bank_witness:
  "replyStatus (fst (serve firstRnd (Some sampleBank) (Generate ''mid2''))) = 500
   \<and> snd (serve firstRnd (Some sampleBank) (Generate ''mid2'')) = Some sampleBank"
proof -
  have g: "generateQuestions firstRnd (Some sampleBank) ''mid2'' = Inl (InsufficientL1 4 0 2)"
    by code_simp
  then have "replyStatus (fst (serve firstRnd (Some sampleBank) (Generate ''mid2''))) = 500"
    by (simp add: generateHandler_def)
  with generate_leaves_bank [of firstRnd "Some sampleBank" "''mid2''"] show ?thesis
    by simp
qed

subsection \<open>C8: what normalisation keeps\<close>

text \<open>
  Claim C8, as amended. Every question of the bank built by \<open>processExcelData\<close> has a unit
  from 1 to 5 and a level that is neither empty nor \<open>0\<close>, and a row is dropped exactly
  when its unit or its level fails that test; the same holds in the six-question variant.
  Whether the level is one of \<open>1\<close> to \<open>6\<close> is not tested here: the upload handler tests
  it afterwards and rejects the whole upload.
\<close>

theorem processExcelData_pool:
  "(\<forall>q \<in> set (processExcelData data).
      1 \<le> unit q \<and> unit q \<le> 5 \<and> btLevel q \<noteq> ''0'' \<and> btLevel q \<noteq> [])
   \<and> (\<forall>i < length data.
        toEntry i (data ! i) \<in> set (processExcelData data)
          \<longleftrightarrow> (1 \<le> unit (toEntry i (data ! i)) \<and> unit (toEntry i (data ! i)) \<le> 5
               \<and> btLevel (toEntry i (data ! i)) \<noteq> ''0''))
   \<and> (\<forall>q \<in> set (processExcelData_v1 data).
      1 \<le> unit q \<and> unit q \<le> 5 \<and> btLevel q \<noteq> ''0'' \<and> btLevel q \<noteq> [])
   \<and> (\<forall>i < length data.
        toEntry_v1 i (data ! i) \<in> set (processExcelData_v1 data)
          \<longleftrightarrow> (1 \<le> unit (toEntry_v1 i (data ! i)) \<and> unit (toEntry_v1 i (data ! i)) \<le> 5
               \<and> btLevel (toEntry_v1 i (data ! i)) \<noteq> ''0''))"
proof -
  have 1: "\<forall>q \<in> set (processExcelData data).
      1 \<le> unit q \<and> unit q \<le> 5 \<and> btLevel q \<noteq> ''0'' \<and> btLevel q \<noteq> []"
  proof
    fix q assume "q \<in> set (processExcelData data)"
    then obtain i where "q = toEntry i (data ! i)" "keepEntry q"
      by (auto simp: processExcelData_mem)
    then show "1 \<le> unit q \<and> unit q \<le> 5 \<and> btLevel q \<noteq> ''0'' \<and> btLevel q \<noteq> []"
      by (simp add: keepEntry_def toEntry_btLevel_nonempty)
  qed
  have 2: "\<forall>i < length data.
        toEntry i (data ! i) \<in> set (processExcelData data)
          \<longleftrightarrow> (1 \<le> unit (toEntry i (data ! i)) \<and> unit (toEntry i (data ! i)) \<le> 5
               \<and> btLevel (toEntry i (data ! i)) \<noteq> ''0'')"
    by (auto simp: processExcelData_mem keepEntry_def)
  have 3: "\<forall>q \<in> set (processExcelData_v1 data).
      1 \<le> unit q \<and> unit q \<le> 5 \<and> btLevel q \<noteq> ''0'' \<and> btLevel q \<noteq> []"
  proof
    fix q assume "q \<in> set (processExcelData_v1 data)"
    then obtain i where "q = toEntry_v1 i (data ! i)" "keepEntry q"
      by (auto simp: processExcelData_v1_mem)
    then show "1 \<le> unit q \<and> unit q \<le> 5 \<and> btLevel q \<noteq> ''0'' \<and> btLevel q \<noteq> []"
      by (simp add: keepEntry_def toEntry_v1_btLevel_nonempty)
  qed
  have 4: "\<forall>i < length data.
        toEntry_v1 i (data ! i) \<in> set (processExcelData_v1 data)
          \<longleftrightarrow> (1 \<le> unit (toEntry_v1 i (data ! i)) \<and> unit (toEntry_v1 i (data ! i)) \<le> 5
               \<and> btLevel (toEntry_v1 i (data ! i)) \<noteq> ''0'')"
    by (auto simp: processExcelData_v1_mem keepEntry_def)
  from 1 2 3 4 show ?thesis by blast
qed

text \<open>
  Claim C8, witness: of four rows, the one with unit 7 and the one without a level are
  dropped.
\<close>

theorem processExcelData_pool_witness:
  "map (\<lambda>q. (q_id q, unit q, btLevel q)) (processExcelData shortRows)
     = [(1, 4, ''2''), (4, 5, ''4'')]
   \<and> list_all (\<lambda>q. 1 \<le> unit q \<and> unit q \<le> 5 \<and> btLevel q \<noteq> ''0'' \<and> btLevel q \<noteq> [])
        (processExcelData shortRows)"
proof -
  have "map (\<lambda>q. (q_id q, unit q, btLevel q)) (processExcelData shortRows)
     = [(1, 4, ''2''), (4, 5, ''4'')]"
    by code_simp
  with processExcelData_pool [of shortRows] show ?thesis
    unfolding list_all_iff by blast
qed

text \<open>
  Claim C8, counterexample to the claim as stated. A row of unit I with the level
  \<open>L7\<close> is kept, with the level \<open>7\<close>, which is none of the levels the upload handler
  recognises; so is a row of unit 1 in the six-question variant.
\<close>

theorem processExcelData_unrecognized_level:
  "map btLevel (processExcelData [sampleRow ''L7'' ''I'']) = [''7'']
   \<and> map btLevel (processExcelData_v1 [sampleRow ''L7'' ''1'']) = [''7'']
   \<and> ''7'' \<notin> set validBTLevels"
  by code_simp

subsection \<open>C9: the lower bound on the size of the bank\<close>

text \<open>
  Claim C9. The claim asks that a sheet giving fewer than 17 questions be turned away
  before the selection can ever run on it. The code means to do so, and answers such a
  sheet with the status 400, but it assigns \<open>questionBank\<close> before it tests the size
  (lemma \<open>short_upload_is_stored\<close>): the short pool takes the place of the bank that was
  stored. Only the second half of the claim holds: \<open>generateQuestions\<close> tests the bound
  again, first of all (lemma \<open>size_gates\<close>). Here the server holds the sample bank of
  19 questions and is sent a sheet of four rows, two of them usable. The reply is the
  error for 2 questions, the state is the pool of 2 and no longer the sample bank, and a
  generate request for \<open>mid1\<close> on that state gets past the handler's test for a bank and
  into \<open>generateQuestions\<close>, which throws its size error.
\<close>

theorem short_upload_reaches_core:
  "fst (uploadHandler (Some sampleBank) shortRows) = UploadInsufficient 2
   \<and> uploadStatus (fst (uploadHandler (Some sampleBank) shortRows)) = 400
   \<and> map (\<lambda>q. (q_id q, unit q, btLevel q))
        (the (snd (uploadHandler (Some sampleBank) shortRows)))
       = [(1, 4, ''2''), (4, 5, ''4'')]
   \<and> snd (uploadHandler (Some sampleBank) shortRows) \<noteq> Some sampleBank
   \<and> fst (generateHandler firstRnd (snd (uploadHandler (Some sampleBank) shortRows)) ''mid1'')
       = GenerateFailed (InsufficientQuestionBank 2)"
proof -
  have m: "map (\<lambda>q. (q_id q, unit q, btLevel q)) (processExcelData shortRows)
             = [(1, 4, ''2''), (4, 5, ''4'')]"
    by code_simp
  then have "length (map (\<lambda>q. (q_id q, unit q, btLevel q)) (processExcelData shortRows)) = 2"
    by simp
  then have n: "length (processExcelData shortRows) = 2"
    by simp
  then have short: "length (processExcelData shortRows) < 17"
    by simp
  note s = short_upload_is_stored [OF short, of "Some sampleBank"]
  have "length sampleBank = 19"
    by (simp add: sampleBank_def)
  with n have d: "processExcelData shortRows \<noteq> sampleBank"
    by auto
  have g: "generateQuestions firstRnd (Some (processExcelData shortRows)) ''mid1''
             = Inl (InsufficientQuestionBank 2)"
    using size_gates [of shortRows None "processExcelData shortRows" firstRnd "''mid1''"] n
    by simp
  then have h: "fst (generateHandler firstRnd (Some (processExcelData shortRows)) ''mid1'')
             = GenerateFailed (InsufficientQuestionBank 2)"
    by (simp add: generateHandler_def)
  from s m n d h show ?thesis by simp
qed

text \<open>
  Claim C9, witness: after the rejected upload the stored bank is the short pool, and the
  generate request ends with the status 500 of an error thrown by \<open>generateQuestions\<close>.
\<close>

theorem short_upload_reaches_core_witness:
  "uploadStatus (fst (uploadHandler (Some sampleBank) shortRows)) = 400
   \<and> snd (uploadHandler (Some sampleBank) shortRows) \<noteq> Some sampleBank
   \<and> generateStatus
        (fst (generateHandler firstRnd (snd (uploadHandler (Some sampleBank) shortRows))
               ''mid1'')) = 500"
  using short_upload_reaches_core by simp

subsection \<open>C10: the two parts split the bank by level\<close>

text \<open>
  Claim C10. In a returned selection every question of Part A has the level \<open>1\<close> and
  every question of Part B has another level.
\<close>

theorem parts_split_by_level:
  assumes "generateQuestions rnd qb pt = Inr (a, b)"
  shows "(\<forall>s \<in> set a. btLevel s = ''1'') \<and> (\<forall>s \<in> set b. btLevel s \<noteq> ''1'')"
proof -
  from generateQuestions_Inr [OF assms] obtain p :: plan and bank qsA qsB where
    la: "length qsA = length (partALabels p)"
    and a: "a = labelled ''A'' qsA (partALabels p)"
    and sa: "set qsA \<subseteq> set (filter isPartA bank)"
    and lb: "length qsB = length (questionLabels p)"
    and b: "b = sortBy compareB (labelled ''B'' qsB (questionLabels p))"
    and sb: "set qsB \<subseteq> set (filter isPartB bank)"
    by blast
  have "set (map btLevel a) = set (map btLevel qsA)"
    using a la by (simp add: labelled_maps)
  then have "btLevel ` set a = btLevel ` set qsA"
    by simp
  moreover have "\<forall>q \<in> set qsA. btLevel q = ''1''"
    using sa by (auto simp: isPartA_def)
  ultimately have A: "\<forall>s \<in> set a. btLevel s = ''1''"
    by (metis (no_types, lifting) image_iff)
  have "set (map btLevel (labelled ''B'' qsB (questionLabels p))) = set (map btLevel qsB)"
    using lb by (simp add: labelled_maps)
  then have "btLevel ` set b = btLevel ` set qsB"
    unfolding b by simp
  moreover have "\<forall>q \<in> set qsB. btLevel q \<noteq> ''1''"
    using sb by (auto simp: isPartB_def)
  ultimately have B: "\<forall>s \<in> set b. btLevel s \<noteq> ''1''"
    by (metis (no_types, lifting) image_iff)
  from A B show ?thesis by simp
qed

text \<open>Claim C10, witness: the paper drawn from the sample bank.\<close>

theorem parts_split_by_level_witness:
  "generateQuestions sampleRnd (Some sampleBank) ''mid1'' = Inr (samplePartA, samplePartB)
   \<and> list_all (\<lambda>s. btLevel s = ''1'') samplePartA
   \<and> list_all (\<lambda>s. btLevel s \<noteq> ''1'') samplePartB"
  using parts_split_by_level [OF sample_run] sample_run by (simp add: list_all_iff)

end
